theory Spec2Isabelle
  imports Complex_Main "HOL-Library.AList" "HOL-Library.Sublist"
begin

section \<open>The content-developer orchestrator\<close>

text \<open>
  A shallow embedding of \<^verbatim>\<open>src/content_developer/orchestrator/orchestrator.py\<close>, the class
  \<^verbatim>\<open>ContentDeveloperOrchestrator\<close>. Each method that takes part in the workflow is a
  definition below, under its own name without the leading underscore; the constructor and
  \<^verbatim>\<open>_log_generation_summary\<close> (which only logs) are left out. The body of the \<^verbatim>\<open>try\<close> of
  Phases 2, 3 and 4 and the auto-confirm block of Phase 1 are definitions of their own, so
  that statements can name their outcome. The collaborators the class calls (repository
  manager, processors, generator, confirmation dialogues) live in other modules; they enter
  the model as the fields of the record \<open>collaborators\<close>, each a function that returns a
  value or an exception. Console output and logging have no effect on control flow and are
  left out.
\<close>

subsection \<open>Strings, numbers, exceptions\<close>

text \<open>
  A Python \<^verbatim>\<open>str\<close> is a \<open>string\<close>; a \<open>char\<close> stands for the code point of the same number
  (U+0000 to U+00FF). A confidence is a \<open>real\<close>: the code only compares confidences, the
  order of floating-point numbers is the order of the numbers they stand for, and the literal
  \<^verbatim>\<open>0.7\<close> is the same number wherever it is written. An \<open>exn\<close> is an instance of
  \<^verbatim>\<open>Exception\<close> (what \<^verbatim>\<open>except Exception\<close> catches), with its class name and its \<^verbatim>\<open>str()\<close>.
\<close>

type_synonym path = string

datatype exn = Exception (exn_type: string) (exn_str: string)

datatype fatal = LLMFailed string | SelectionFailed string | ConfidenceTooLow real

text \<open>
  What \<^verbatim>\<open>execute\<close> can raise: one of the three \<^verbatim>\<open>RuntimeError\<close>s of the auto-confirm check of
  Phase 1 (\<open>LLMFailed e\<close> is "Auto-confirm enabled but LLM failed: e", \<open>SelectionFailed m\<close> is
  "Auto-confirm enabled but directory selection failed: m", \<open>ConfidenceTooLow c\<close> is
  "Auto-confirm enabled but confidence too low: c"), or an exception of a collaborator that
  no handler catches.
\<close>

datatype error = RuntimeError fatal | Propagated exn

definition is_ascii_digit :: "char \<Rightarrow> bool" where
  "is_ascii_digit c = (48 \<le> (of_char c :: nat) \<and> (of_char c :: nat) \<le> 57)"

text \<open>
  \<^verbatim>\<open>str.isdigit\<close> on one character: the decimal digits and the characters whose Unicode
  numeric type is Digit; up to U+00FF these are 0 to 9 and the superscripts two, three and one
  (U+00B2, U+00B3, U+00B9).
\<close>

definition char_isdigit :: "char \<Rightarrow> bool" where
  "char_isdigit c = (is_ascii_digit c \<or> c = CHR 0xB2 \<or> c = CHR 0xB3 \<or> c = CHR 0xB9)"

definition str_isdigit :: "string \<Rightarrow> bool" where
  "str_isdigit s = (s \<noteq> [] \<and> list_all char_isdigit s)"

definition digit_val :: "char \<Rightarrow> int" where
  "digit_val c = int (of_char c) - 48"

definition decimal_val :: "string \<Rightarrow> int" where
  "decimal_val s = foldl (\<lambda>n c. 10 * n + digit_val c) 0 s"

definition ValueError :: "string \<Rightarrow> exn" where
  "ValueError s =
     Exception ''ValueError''
       (''invalid literal for int() with base 10: '' @ [CHR 0x27] @ s @ [CHR 0x27])"

text \<open>
  \<^verbatim>\<open>int(s)\<close> on the strings the code passes to it, those that \<^verbatim>\<open>isdigit\<close> accepts: the
  decimal value when every character is a decimal digit, \<^verbatim>\<open>ValueError\<close> otherwise (a
  superscript digit is no decimal digit). Python's integers are unbounded; the limit that
  newer interpreters put on the length of a decimal literal is left out.
\<close>

definition py_int :: "string \<Rightarrow> exn + int" where
  "py_int s = (if s \<noteq> [] \<and> list_all is_ascii_digit s then Inr (decimal_val s)
               else Inl (ValueError s))"

text \<open>The generator \<^verbatim>\<open>int(p) for p in ... if p.isdigit()\<close>, consumed from the left.\<close>

fun ints_of :: "string \<Rightarrow> exn + int list" where
  "ints_of [] = Inr []"
| "ints_of (p # ps) =
     (case py_int [p] of
        Inl e \<Rightarrow> Inl e
      | Inr n \<Rightarrow> (case ints_of ps of Inl e \<Rightarrow> Inl e | Inr ns \<Rightarrow> Inr (n # ns)))"

text \<open>\<^verbatim>\<open>max\<close> of a sequence that is not empty (the code guards the call with \<^verbatim>\<open>any\<close>).\<close>

definition py_max :: "int list \<Rightarrow> int" where
  "py_max ns = fold max (tl ns) (hd ns)"

text \<open>Truthiness of \<^verbatim>\<open>d.get(key)\<close> for a string entry: absent, \<^verbatim>\<open>None\<close> and \<^verbatim>\<open>''\<close> are false.\<close>

definition truthy :: "string option \<Rightarrow> bool" where
  "truthy v = (case v of None \<Rightarrow> False | Some s \<Rightarrow> s \<noteq> [])"

text \<open>
  A key of a dictionary where the code tells the three apart: the key is absent (\<^verbatim>\<open>d[key]\<close>
  raises \<^verbatim>\<open>KeyError\<close>, \<^verbatim>\<open>d.get(key, default)\<close> gives the default), it holds \<^verbatim>\<open>None\<close> (both
  give \<^verbatim>\<open>None\<close>), or it holds a value.
\<close>

datatype 'a slot = Absent | Null | Present 'a

definition slot_truthy :: "string slot \<Rightarrow> bool" where
  "slot_truthy v = (case v of Present s \<Rightarrow> s \<noteq> [] | Absent \<Rightarrow> False | Null \<Rightarrow> False)"

text \<open>The value of a key that is present, as Python has it.\<close>

definition stored :: "'a slot \<Rightarrow> 'a option" where
  "stored v = (case v of Present x \<Rightarrow> Some x | Absent \<Rightarrow> None | Null \<Rightarrow> None)"

text \<open>Sequencing of calls that may raise: the first exception ends the block.\<close>

definition try_bind :: "exn + 'a \<Rightarrow> ('a \<Rightarrow> exn + 'b) \<Rightarrow> exn + 'b" where
  "try_bind r f = (case r of Inl e \<Rightarrow> Inl e | Inr x \<Rightarrow> f x)"

subsection \<open>Paths and the file system\<close>

text \<open>
  A \<^verbatim>\<open>pathlib.Path\<close> (a \<^verbatim>\<open>PosixPath\<close>) is modelled by its string, \<^verbatim>\<open>str(p)\<close>. \<^verbatim>\<open>pathlib\<close>
  keeps of a string its root (none, \<^verbatim>\<open>/\<close>, or \<^verbatim>\<open>//\<close> for exactly two leading slashes) and its
  components, without the empty ones and the \<^verbatim>\<open>.\<close> ones, so that \<^verbatim>\<open>./a//b/\<close> and \<^verbatim>\<open>a/b\<close> are
  one path; \<^verbatim>\<open>..\<close> is kept. \<open>components\<close> is \<^verbatim>\<open>s.split('/')\<close>, \<open>Path\<close> the constructor,
  \<open>path_div\<close> the operator \<^verbatim>\<open>/\<close> with a string on the right (an absolute right operand
  replaces the left one), \<open>path_name\<close> and \<open>path_parent\<close> are \<^verbatim>\<open>.name\<close> and \<^verbatim>\<open>.parent\<close>. The
  functions take the string of any path, in normal form or not.
\<close>

fun components :: "string \<Rightarrow> string list" where
  "components [] = [[]]"
| "components (c # cs) =
     (if c = CHR ''/'' then [] # components cs
      else (case components cs of x # xs \<Rightarrow> (c # x) # xs | [] \<Rightarrow> [[c]]))"

definition path_parts :: "string \<Rightarrow> string list" where
  "path_parts s = filter (\<lambda>x. x \<noteq> [] \<and> x \<noteq> ''.'') (components s)"

definition path_root :: "string \<Rightarrow> string" where
  "path_root s =
     (if take 1 s \<noteq> ''/'' then []
      else if take 1 (drop 1 s) = ''/'' \<and> take 1 (drop 2 s) \<noteq> ''/'' then ''//''
      else ''/'')"

fun join_slash :: "string list \<Rightarrow> string" where
  "join_slash [] = []"
| "join_slash [x] = x"
| "join_slash (x # y # ys) = x @ ''/'' @ join_slash (y # ys)"

definition path_of :: "string \<Rightarrow> string list \<Rightarrow> path" where
  "path_of rt parts = (if rt = [] \<and> parts = [] then ''.'' else rt @ join_slash parts)"

definition Path :: "string \<Rightarrow> path" where
  "Path s = path_of (path_root s) (path_parts s)"

definition path_div :: "path \<Rightarrow> string \<Rightarrow> path" where
  "path_div p f =
     (if path_root f \<noteq> [] then Path f
      else path_of (path_root p) (path_parts p @ path_parts f))"

definition path_name :: "path \<Rightarrow> string" where
  "path_name p = (if path_parts p = [] then [] else last (path_parts p))"

definition path_parent :: "path \<Rightarrow> path" where
  "path_parent p = path_of (path_root p) (butlast (path_parts p))"

text \<open>The directories above a path, from the top, and the path itself last.\<close>

definition path_ancestors :: "path \<Rightarrow> path list" where
  "path_ancestors p = map (path_of (path_root p)) (tl (prefixes (path_parts p)))"

text \<open>
  The file system: the regular files with their content (an association list, the first entry
  of a path counts) and the directories. The \<open>world\<close> adds what the orchestrator itself does:
  the calls of \<^verbatim>\<open>utils.write\<close> in the order they were made, and the phases the process-wide
  step tracker was reset for, in order.
\<close>

record filesystem =
  files :: "(path \<times> string) list"
  dirs :: "path list"

record world =
  fs :: filesystem
  writes :: "(path \<times> string) list"
  step_tracker :: "nat list"

definition path_exists :: "filesystem \<Rightarrow> path \<Rightarrow> bool" where
  "path_exists f p = (p \<in> set (dirs f) \<or> p \<in> set (map fst (files f)))"

definition is_dir :: "filesystem \<Rightarrow> path \<Rightarrow> bool" where
  "is_dir f p = (p \<in> set (dirs f))"

text \<open>\<^verbatim>\<open>directory.rglob("*.md")\<close>: the files below the directory whose name ends in .md.\<close>

definition rglob_md :: "filesystem \<Rightarrow> path \<Rightarrow> path list" where
  "rglob_md f d =
     filter (\<lambda>p. prefix (d @ ''/'') p \<and> suffix ''.md'' p) (remdups (map fst (files f)))"

definition read_file :: "world \<Rightarrow> path \<Rightarrow> string option" where
  "read_file w p = map_of (files (fs w)) p"

text \<open>
  Modelled from the spec: \<^verbatim>\<open>utils.write\<close> and \<^verbatim>\<open>utils.mkdir\<close> are not among the sources. The
  spec has raw file I/O as a collaborator whose effect is the file mutation: \<open>utils_write\<close>,
  the effect of a call of \<^verbatim>\<open>write\<close> that returns, replaces the whole content of the file at
  the path (creating it); \<open>utils_mkdir\<close> makes the directory exist, with the directories
  above it ("parent directories created as needed"). \<open>write_error\<close> is the exception of a
  call of \<^verbatim>\<open>write\<close> that does not return: a path that is a directory cannot be written as
  a file (\<^verbatim>\<open>IsADirectoryError\<close>). Other failures of file I/O (permissions, a missing parent
  directory, links) are outside the model.
\<close>

definition utils_write :: "path \<Rightarrow> string \<Rightarrow> world \<Rightarrow> world" where
  "utils_write p c w =
     w\<lparr>fs := (fs w)\<lparr>files := AList.update p c (files (fs w))\<rparr>, writes := writes w @ [(p, c)]\<rparr>"

definition utils_mkdir :: "path \<Rightarrow> world \<Rightarrow> world" where
  "utils_mkdir p w =
     w\<lparr>fs := (fs w)\<lparr>dirs := fold List.insert (path_ancestors p @ [p]) (dirs (fs w))\<rparr>\<rparr>"

definition IsADirectoryError :: "path \<Rightarrow> exn" where
  "IsADirectoryError p =
     Exception ''IsADirectoryError'' (''[Errno 21] Is a directory: '' @ [CHR 0x27] @ p @ [CHR 0x27])"

definition write_error :: "world \<Rightarrow> path \<Rightarrow> exn option" where
  "write_error w p = (if is_dir (fs w) p then Some (IsADirectoryError p) else None)"

text \<open>
  Modelled from the spec: \<^verbatim>\<open>utils.step_tracker\<close> is not among the sources. Each phase calls
  \<^verbatim>\<open>reset_phase(n)\<close> on the process-wide tracker as its first action, so the tracker records
  which phases were executed.
\<close>

definition reset_phase :: "nat \<Rightarrow> world \<Rightarrow> world" where
  "reset_phase n w = w\<lparr>step_tracker := step_tracker w @ [n]\<rparr>"

subsection \<open>Configuration, results, collaborators\<close>

text \<open>
  Classes are records with the attributes the orchestrator reads or writes; dictionaries are
  records of their keys: a key that the code reads with \<^verbatim>\<open>d[key]\<close>, or whose value it uses as
  a number or a path, is a \<open>slot\<close>; a key that it only tests or passes on is an \<open>option\<close>
  (\<open>None\<close>: the key is absent or holds \<^verbatim>\<open>None\<close>). Keys of dictionaries carry a prefix, since several dictionaries and classes share
  a key: \<open>d_\<close> a directory selection, \<open>s_\<close> a setup result, \<open>e_\<close> one generation result,
  \<open>g_\<close> the generation results, \<open>t_\<close> the TOC results, \<open>r_\<close> an attribute of \<^verbatim>\<open>Result\<close>
  whose name \<^verbatim>\<open>Config\<close>, \<^verbatim>\<open>ContentStrategy\<close> or a local variable of the code has too.
\<close>

record config =
  phases :: string
  auto_confirm :: bool
  apply_changes :: bool
  skip_toc :: bool
  repo_url :: string
  work_dir :: string
  support_materials :: "string list"
  max_repo_depth :: nat
  content_goal :: string
  service_area :: string

record selection =
  d_working_directory :: "string slot"
  d_justification :: "string slot"
  d_confidence :: "real slot"
  d_error :: "string slot"

record setup_result =
  s_success :: bool
  s_full_path :: string
  s_markdown_count :: "nat option"
  s_error :: "string option"

record decision =
  action :: string
  filename :: "string slot"

text \<open>
  Modelled from the spec: \<^verbatim>\<open>ContentStrategy\<close> is a class of \<^verbatim>\<open>models\<close>, not among the sources.
  The orchestrator reads its \<^verbatim>\<open>confidence\<close>, \<^verbatim>\<open>decisions\<close> and \<^verbatim>\<open>summary\<close>; \<open>strategy_error\<close> is
  where the failure strategy of the spec carries the error.
\<close>

record ContentStrategy =
  confidence :: real
  decisions :: "decision list"
  summary :: string
  strategy_error :: "string option"

record generation_entry =
  e_success :: bool
  e_action :: "decision slot"
  e_content :: "string option"
  e_updated_content :: "string option"

text \<open>A list-valued key that is absent reads as the empty list, as \<^verbatim>\<open>.get(key, [])\<close> does.\<close>

record generation_dict =
  create_results :: "generation_entry list"
  update_results :: "generation_entry list"
  created_files :: "string list"
  updated_files :: "string list"
  g_applied :: "bool option"

record toc_dict =
  t_success :: bool
  t_changes_made :: bool
  t_entries_added :: "string list"
  t_content :: "string option"
  t_message :: "string option"
  t_applied :: "bool option"

text \<open>
  Modelled from the spec: \<^verbatim>\<open>Result\<close> is a class of \<^verbatim>\<open>models\<close>, not among the sources. Phase 1
  sets the first eleven attributes; the spec has the rest unset (\<^verbatim>\<open>None\<close>, \<^verbatim>\<open>False\<close>) until
  their phase sets them. The justification and the confidence are stored as the confirmed
  selection holds them, \<^verbatim>\<open>None\<close> included.
\<close>

record Result =
  working_directory :: string
  justification :: "string option"
  r_confidence :: "real option"
  r_repo_url :: string
  r_repo_path :: string
  material_summaries :: "string list"
  r_content_goal :: string
  r_service_area :: string
  directory_ready :: bool
  working_directory_full_path :: string
  setup_error :: "string option"
  content_strategy :: "ContentStrategy option"
  strategy_ready :: bool
  generation_results :: "generation_dict option"
  generation_ready :: bool
  toc_results :: "toc_dict option"
  toc_ready :: bool

text \<open>
  The collaborators, by the call the orchestrator makes: \<^verbatim>\<open>RepositoryManager.clone_or_update\<close>
  (it changes the file system), \<^verbatim>\<open>extract_name\<close>, \<^verbatim>\<open>get_structure\<close>, the \<^verbatim>\<open>process\<close> methods of
  \<^verbatim>\<open>MaterialProcessor\<close>, \<^verbatim>\<open>DirectoryDetector\<close>, \<^verbatim>\<open>ContentDiscoveryProcessor\<close>,
  \<^verbatim>\<open>ContentStrategyProcessor\<close>, \<^verbatim>\<open>ContentGenerator\<close> and \<^verbatim>\<open>TOCProcessor\<close>,
  \<^verbatim>\<open>DirectoryConfirmation.confirm\<close>, and the answer of \<^verbatim>\<open>StrategyConfirmation.confirm\<close> to a
  strategy that was generated.
\<close>

record collaborators =
  clone_or_update :: "string \<Rightarrow> string \<Rightarrow> filesystem \<Rightarrow> (exn + path) \<times> filesystem"
  extract_name :: "string \<Rightarrow> exn + string"
  get_structure :: "path \<Rightarrow> nat \<Rightarrow> exn + string"
  material_process :: "string list \<Rightarrow> path \<Rightarrow> exn + string list"
  detector_process :: "path \<Rightarrow> string \<Rightarrow> string list \<Rightarrow> exn + selection"
  dir_confirm :: "selection option \<Rightarrow> string \<Rightarrow> bool \<Rightarrow> string \<Rightarrow> exn + selection"
  discovery_process :: "path \<Rightarrow> string \<Rightarrow> string \<Rightarrow> exn + string list"
  strategy_process ::
    "string list \<Rightarrow> string list \<Rightarrow> config \<Rightarrow> string \<Rightarrow> string \<Rightarrow> exn + ContentStrategy"
  strategy_answer :: "ContentStrategy \<Rightarrow> exn + ContentStrategy"
  generator_process ::
    "ContentStrategy option \<Rightarrow> string list \<Rightarrow> path \<Rightarrow> string \<Rightarrow> string \<Rightarrow> exn + generation_dict"
  toc_process :: "path \<Rightarrow> string list \<Rightarrow> string list \<Rightarrow> decision list \<Rightarrow> exn + toc_dict"

text \<open>
  The orchestrator object: its configuration, whether a console display was given, its
  collaborators, and the constant \<^verbatim>\<open>MAX_PHASES\<close> of the module \<^verbatim>\<open>constants\<close> (not among the
  sources, so a parameter).
\<close>

record orchestrator =
  config :: config
  console_display :: bool
  collab :: collaborators
  MAX_PHASES :: int

definition AttributeError :: exn where
  "AttributeError = Exception ''AttributeError'' ''NoneType object has no attribute''"

text \<open>
  The three \<^verbatim>\<open>TypeError\<close>s of a \<^verbatim>\<open>None\<close> where the code needs a number or a string:
  \<^verbatim>\<open>None < 0.7\<close>, \<^verbatim>\<open>f"{None:.1%}"\<close> and \<^verbatim>\<open>path / None\<close>.
\<close>

definition TypeError :: "string \<Rightarrow> exn" where
  "TypeError m = Exception ''TypeError'' m"

definition compare_None :: exn where
  "compare_None =
     TypeError ([CHR 0x27] @ ''<'' @ [CHR 0x27] @ '' not supported between instances of ''
                @ [CHR 0x27] @ ''NoneType'' @ [CHR 0x27] @ '' and ''
                @ [CHR 0x27] @ ''float'' @ [CHR 0x27])"

definition format_None :: exn where
  "format_None = TypeError ''unsupported format string passed to NoneType.__format__''"

definition div_None :: exn where
  "div_None =
     TypeError (''unsupported operand type(s) for /: '' @ [CHR 0x27] @ ''PosixPath'' @ [CHR 0x27]
                @ '' and '' @ [CHR 0x27] @ ''NoneType'' @ [CHR 0x27])"

definition KeyError :: "string \<Rightarrow> exn" where
  "KeyError k = Exception ''KeyError'' k"

subsection \<open>Phase selection\<close>

definition parse_max_phase :: "orchestrator \<Rightarrow> exn + int" where
  "parse_max_phase orch =
     (let ph = phases (config orch) in
      if ph = ''all'' then Inr (MAX_PHASES orch)
      else if str_isdigit ph then py_int ph
      else if list_ex char_isdigit ph
        then try_bind (ints_of (filter char_isdigit ph)) (\<lambda>ns. Inr (py_max ns))
        else Inr 1)"

subsection \<open>Directory setup\<close>

definition normalize_working_directory :: "path \<Rightarrow> string \<Rightarrow> string" where
  "normalize_working_directory repo_path working_dir =
     (let repo_name = path_name repo_path in
      if prefix (repo_name @ ''/'') working_dir
      then drop (length repo_name + 1) working_dir
      else working_dir)"

definition validate_directory :: "filesystem \<Rightarrow> path \<Rightarrow> string \<Rightarrow> setup_result option" where
  "validate_directory f full_path working_dir =
     (if \<not> path_exists f full_path then
        Some \<lparr>s_success = False, s_full_path = full_path, s_markdown_count = None,
              s_error = Some (''Directory does not exist: '' @ working_dir)\<rparr>
      else if \<not> is_dir f full_path then
        Some \<lparr>s_success = False, s_full_path = full_path, s_markdown_count = None,
              s_error = Some (''Not a directory: '' @ working_dir)\<rparr>
      else None)"

definition count_markdown_files :: "filesystem \<Rightarrow> path \<Rightarrow> nat" where
  "count_markdown_files f directory = length (rglob_md f directory)"

definition setup_directory :: "filesystem \<Rightarrow> path \<Rightarrow> string \<Rightarrow> setup_result" where
  "setup_directory f repo_path working_dir0 =
     (let working_dir = normalize_working_directory repo_path working_dir0;
          full_path = path_div repo_path working_dir
      in case validate_directory f full_path working_dir of
           Some validation_result \<Rightarrow> validation_result
         | None \<Rightarrow>
             \<lparr>s_success = True, s_full_path = full_path,
              s_markdown_count = Some (count_markdown_files f full_path), s_error = None\<rparr>)"

subsection \<open>Phase 1: repository analysis\<close>

definition detect_directory ::
  "orchestrator \<Rightarrow> path \<Rightarrow> string \<Rightarrow> string list \<Rightarrow> selection option \<times> bool \<times> string" where
  "detect_directory orch repo_path structure materials =
     (case detector_process (collab orch) repo_path structure materials of
        Inr llm_result \<Rightarrow> (Some llm_result, False, [])
      | Inl e \<Rightarrow> (None, True, exn_str e))"

text \<open>
  The block \<^verbatim>\<open>if self.config.auto_confirm:\<close> of \<^verbatim>\<open>_execute_phase1\<close>: the exception it raises,
  if any. \<^verbatim>\<open>llm_result\<close> is \<^verbatim>\<open>None\<close> only when \<^verbatim>\<open>llm_failed\<close> is set; \<^verbatim>\<open>.get\<close> on \<^verbatim>\<open>None\<close>
  would be an \<^verbatim>\<open>AttributeError\<close>. \<open>error_msg\<close> is \<^verbatim>\<open>llm_result.get('error', ...)\<close> as the
  message formats it. \<^verbatim>\<open>llm_result.get('confidence', 0)\<close> is 0 for an absent key and \<^verbatim>\<open>None\<close>
  for a key that holds \<^verbatim>\<open>None\<close>, on which the comparison with 0.7 raises \<^verbatim>\<open>TypeError\<close>.
\<close>

definition error_msg :: "selection \<Rightarrow> string" where
  "error_msg d =
     (case d_error d of
        Absent \<Rightarrow> ''LLM returned empty directory'' | Null \<Rightarrow> ''None'' | Present m \<Rightarrow> m)"

definition auto_confirm_check :: "selection option \<Rightarrow> bool \<Rightarrow> string \<Rightarrow> error option" where
  "auto_confirm_check llm_result llm_failed err =
     (if llm_failed then Some (RuntimeError (LLMFailed err))
      else case llm_result of
        None \<Rightarrow> Some (Propagated AttributeError)
      | Some d \<Rightarrow>
          if \<not> slot_truthy (d_working_directory d) then
            Some (RuntimeError (SelectionFailed (error_msg d)))
          else
            (case d_confidence d of
               Absent \<Rightarrow>
                 if (0 :: real) < 0.7 then Some (RuntimeError (ConfidenceTooLow 0)) else None
             | Null \<Rightarrow> Some (Propagated compare_None)
             | Present c \<Rightarrow>
                 if c < 0.7 then Some (RuntimeError (ConfidenceTooLow c)) else None))"

text \<open>
  \<^verbatim>\<open>_create_phase1_result\<close> is called after \<^verbatim>\<open>_setup_directory\<close> returned for
  \<^verbatim>\<open>confirmed['working_directory']\<close>, which is therefore a string: it is the parameter
  \<open>working_dir\<close> here. The other two keys are read for the first time (in headless mode).
\<close>

definition create_phase1_result ::
  "orchestrator \<Rightarrow> string \<Rightarrow> selection \<Rightarrow> setup_result \<Rightarrow> path \<Rightarrow> string list \<Rightarrow> exn + Result"
  where
  "create_phase1_result orch working_dir confirmed setup_res repo_path materials =
     (if d_justification confirmed = Absent then Inl (KeyError ''justification'')
      else if d_confidence confirmed = Absent then Inl (KeyError ''confidence'')
      else
          Inr \<lparr>working_directory = working_dir,
               justification = stored (d_justification confirmed),
               r_confidence = stored (d_confidence confirmed),
               r_repo_url = repo_url (config orch), r_repo_path = repo_path,
               material_summaries = materials,
               r_content_goal = content_goal (config orch),
               r_service_area = service_area (config orch),
               directory_ready = s_success setup_res,
               working_directory_full_path = s_full_path setup_res,
               setup_error = s_error setup_res,
               content_strategy = None, strategy_ready = False,
               generation_results = None, generation_ready = False,
               toc_results = None, toc_ready = False\<rparr>)"

text \<open>An exception of a collaborator that Phase 1 does not catch ends the run.\<close>

definition propagate :: "exn + 'a \<Rightarrow> ('a \<Rightarrow> error + 'b) \<Rightarrow> error + 'b" where
  "propagate r f = (case r of Inl e \<Rightarrow> Inl (Propagated e) | Inr x \<Rightarrow> f x)"

text \<open>
  The phase summary of the console formats \<^verbatim>\<open>confirmed['confidence']\<close> as a percentage,
  before the result is built: the exception of that, if any.
\<close>

definition summary_error :: "selection \<Rightarrow> exn option" where
  "summary_error confirmed =
     (case d_confidence confirmed of
        Absent \<Rightarrow> Some (KeyError ''confidence'')
      | Null \<Rightarrow> Some format_None
      | Present c \<Rightarrow> None)"

text \<open>
  The steps of \<^verbatim>\<open>_execute_phase1\<close> after the confirmation. \<^verbatim>\<open>_setup_directory\<close> calls
  \<^verbatim>\<open>startswith\<close> on the working directory, an \<^verbatim>\<open>AttributeError\<close> on \<^verbatim>\<open>None\<close>.
\<close>

definition finish_phase1 ::
  "orchestrator \<Rightarrow> filesystem \<Rightarrow> path \<Rightarrow> string list \<Rightarrow> selection \<Rightarrow> error + Result" where
  "finish_phase1 orch f repo_path materials confirmed =
     (case d_working_directory confirmed of
        Absent \<Rightarrow> Inl (Propagated (KeyError ''working_directory''))
      | Null \<Rightarrow> Inl (Propagated AttributeError)
      | Present working_dir \<Rightarrow>
          (let setup_res = setup_directory f repo_path working_dir in
           case (if console_display orch then summary_error confirmed else None) of
             Some e \<Rightarrow> Inl (Propagated e)
           | None \<Rightarrow>
               propagate
                 (create_phase1_result orch working_dir confirmed setup_res repo_path materials)
                 Inr))"

text \<open>
  The two branches of \<^verbatim>\<open>if self.console_display\<close> make the same calls in the same order.
\<close>

definition execute_phase1 :: "orchestrator \<Rightarrow> world \<Rightarrow> (error + Result) \<times> world" where
  "execute_phase1 orch w0 =
     (let cfg = config orch; c = collab orch; w = reset_phase 1 w0 in
      case clone_or_update c (repo_url cfg) (work_dir cfg) (fs w) of
        (Inl e, f1) \<Rightarrow> (Inl (Propagated e), w\<lparr>fs := f1\<rparr>)
      | (Inr repo_path, f1) \<Rightarrow>
          (propagate (material_process c (support_materials cfg) repo_path) (\<lambda>materials.
           propagate (get_structure c repo_path (max_repo_depth cfg)) (\<lambda>structure.
             case detect_directory orch repo_path structure materials of
               (llm_result, llm_failed, err) \<Rightarrow>
             (case (if auto_confirm cfg then auto_confirm_check llm_result llm_failed err
                    else None) of
                Some e \<Rightarrow> Inl e
              | None \<Rightarrow>
                 propagate (dir_confirm c llm_result structure llm_failed err)
                   (finish_phase1 orch f1 repo_path materials)))),
           w\<lparr>fs := f1\<rparr>))"

subsection \<open>Phase 2: content strategy\<close>

definition discover_content :: "orchestrator \<Rightarrow> path \<Rightarrow> string \<Rightarrow> exn + string list" where
  "discover_content orch working_dir_path working_directory' =
     try_bind (extract_name (collab orch) (repo_url (config orch))) (\<lambda>name.
       discovery_process (collab orch) working_dir_path name working_directory')"

definition generate_strategy ::
  "orchestrator \<Rightarrow> string list \<Rightarrow> string list \<Rightarrow> string \<Rightarrow> exn + ContentStrategy" where
  "generate_strategy orch chunks materials working_directory' =
     try_bind (extract_name (collab orch) (repo_url (config orch))) (\<lambda>name.
       strategy_process (collab orch) chunks materials (config orch) name working_directory')"

text \<open>
  Modelled from the spec: \<^verbatim>\<open>StrategyConfirmation.confirm(strategy, failed, error)\<close> is not among
  the sources. The spec: on an exception in Phase 2 "an explicit failure-strategy object
  (confidence 0, carrying the error) is substituted", an "empty/zero-confidence strategy"; a
  generated strategy is passed through the confirmation step, whose answer is the
  collaborator \<open>strategy_answer\<close>.
\<close>

definition failure_strategy :: "string \<Rightarrow> ContentStrategy" where
  "failure_strategy err =
     \<lparr>confidence = 0, decisions = [], summary = [], strategy_error = Some err\<rparr>"

definition strategy_confirm ::
  "orchestrator \<Rightarrow> ContentStrategy option \<Rightarrow> bool \<Rightarrow> string \<Rightarrow> exn + ContentStrategy" where
  "strategy_confirm orch strategy failed err =
     (if failed then Inr (failure_strategy err)
      else case strategy of
        None \<Rightarrow> Inl AttributeError
      | Some s \<Rightarrow> strategy_answer (collab orch) s)"

text \<open>
  The body of the \<^verbatim>\<open>try\<close> of \<^verbatim>\<open>_execute_phase2\<close> up to the confirmed strategy: the console
  branch calls the processors itself, the other branch through the two methods above.
\<close>

definition phase2_try :: "orchestrator \<Rightarrow> Result \<Rightarrow> exn + ContentStrategy" where
  "phase2_try orch result =
     (let c = collab orch; cfg = config orch;
          working_dir_path = working_directory_full_path result
      in if console_display orch then
           try_bind (try_bind (extract_name c (repo_url cfg)) (\<lambda>name.
                       discovery_process c working_dir_path name (working_directory result)))
             (\<lambda>chunks.
           try_bind (try_bind (extract_name c (repo_url cfg)) (\<lambda>name.
                       strategy_process c chunks (material_summaries result) cfg name
                         (working_directory result)))
             (\<lambda>strategy. strategy_confirm orch (Some strategy) False []))
         else
           try_bind (discover_content orch working_dir_path (working_directory result))
             (\<lambda>chunks.
           try_bind (generate_strategy orch chunks (material_summaries result)
                       (working_directory result))
             (\<lambda>strategy. strategy_confirm orch (Some strategy) False [])))"

text \<open>The handler calls the confirmation again; an exception of that call would leave the phase.\<close>

definition handle_phase2_error :: "orchestrator \<Rightarrow> Result \<Rightarrow> exn \<Rightarrow> exn + Result" where
  "handle_phase2_error orch result e =
     try_bind (strategy_confirm orch None True (exn_str e)) (\<lambda>error_strategy.
       Inr (result\<lparr>content_strategy := Some error_strategy, strategy_ready := False\<rparr>))"

definition execute_phase2 :: "orchestrator \<Rightarrow> Result \<Rightarrow> world \<Rightarrow> (exn + Result) \<times> world" where
  "execute_phase2 orch result w0 =
     (let w = reset_phase 2 w0 in
      case phase2_try orch result of
        Inr confirmed_strategy \<Rightarrow>
          (Inr (result\<lparr>content_strategy := Some confirmed_strategy,
                      strategy_ready := (confidence confirmed_strategy > 0)\<rparr>), w)
      | Inl e \<Rightarrow> (handle_phase2_error orch result e, w))"

subsection \<open>Phase 3: content generation and its application\<close>

definition generate_content ::
  "orchestrator \<Rightarrow> Result \<Rightarrow> path \<Rightarrow> string \<Rightarrow> exn + generation_dict" where
  "generate_content orch result working_dir_path working_directory' =
     try_bind (extract_name (collab orch) (repo_url (config orch))) (\<lambda>name.
       generator_process (collab orch) (content_strategy result) (material_summaries result)
         working_dir_path name working_directory')"

definition handle_phase3_error :: "Result \<Rightarrow> exn \<Rightarrow> Result" where
  "handle_phase3_error result e = result\<lparr>generation_results := None, generation_ready := False\<rparr>"

text \<open>
  The first two lines of \<^verbatim>\<open>_create_file\<close> and of \<^verbatim>\<open>_update_file\<close>, the file path of a
  result: \<^verbatim>\<open>result['action']\<close> is a \<^verbatim>\<open>KeyError\<close> without the key and \<^verbatim>\<open>.get\<close> an
  \<^verbatim>\<open>AttributeError\<close> on \<^verbatim>\<open>None\<close>; \<^verbatim>\<open>.get('filename', '')\<close> is the empty string without the key,
  and then the file path is the working directory itself; on a filename that is \<^verbatim>\<open>None\<close> the
  operator \<^verbatim>\<open>/\<close> raises \<^verbatim>\<open>TypeError\<close>.
\<close>

definition file_path_of :: "path \<Rightarrow> generation_entry \<Rightarrow> exn + path" where
  "file_path_of working_dir_path entry =
     (case e_action entry of
        Absent \<Rightarrow> Inl (KeyError ''action'')
      | Null \<Rightarrow> Inl AttributeError
      | Present a \<Rightarrow>
          (case filename a of
             Absent \<Rightarrow> Inr (path_div working_dir_path [])
           | Null \<Rightarrow> Inl div_None
           | Present f \<Rightarrow> Inr (path_div working_dir_path f)))"

text \<open>
  The file a generation result names: its file path, where it has one (for a result without
  one, no call of \<^verbatim>\<open>write\<close> is made, see \<open>create_file_run\<close>).
\<close>

definition target :: "path \<Rightarrow> generation_entry \<Rightarrow> path" where
  "target working_dir_path entry =
     (case file_path_of working_dir_path entry of Inr p \<Rightarrow> p | Inl e \<Rightarrow> Path working_dir_path)"

text \<open>
  Applying the generated content is modelled twice. First the effect of calls that return:
  \<open>create_file\<close>, \<open>update_file\<close>, \<open>apply_create_actions\<close>, \<open>apply_update_actions\<close> and
  \<open>apply_generated_content\<close> give the world after \<^verbatim>\<open>_create_file\<close>, ... returned, that is
  after every call of \<^verbatim>\<open>mkdir\<close> and \<^verbatim>\<open>write\<close> in them was made. \<^verbatim>\<open>_create_file\<close> and
  \<^verbatim>\<open>_update_file\<close> are called for an entry whose content passed the caller's test, so
  \<^verbatim>\<open>result['content']\<close> finds the key.
\<close>

definition create_file :: "generation_entry \<Rightarrow> path \<Rightarrow> world \<Rightarrow> world" where
  "create_file entry working_dir_path w =
     (let file_path = target working_dir_path entry
      in utils_write file_path (case e_content entry of None \<Rightarrow> [] | Some c \<Rightarrow> c)
           (utils_mkdir (path_parent file_path) w))"

fun apply_create_actions :: "generation_entry list \<Rightarrow> path \<Rightarrow> world \<Rightarrow> world" where
  "apply_create_actions [] working_dir_path w = w"
| "apply_create_actions (entry # rest) working_dir_path w =
     apply_create_actions rest working_dir_path
       (if e_success entry \<and> truthy (e_content entry)
        then create_file entry working_dir_path w else w)"

definition update_file :: "generation_entry \<Rightarrow> path \<Rightarrow> world \<Rightarrow> world" where
  "update_file entry working_dir_path w =
     (let file_path = target working_dir_path entry
      in utils_write file_path (case e_updated_content entry of None \<Rightarrow> [] | Some c \<Rightarrow> c) w)"

fun apply_update_actions :: "generation_entry list \<Rightarrow> path \<Rightarrow> world \<Rightarrow> world" where
  "apply_update_actions [] working_dir_path w = w"
| "apply_update_actions (entry # rest) working_dir_path w =
     apply_update_actions rest working_dir_path
       (if e_success entry \<and> truthy (e_updated_content entry)
        then update_file entry working_dir_path w else w)"

definition apply_generated_content :: "generation_dict \<Rightarrow> path \<Rightarrow> world \<Rightarrow> world" where
  "apply_generated_content gen_results working_dir_path w =
     apply_update_actions (update_results gen_results) working_dir_path
       (apply_create_actions (create_results gen_results) working_dir_path w)"

text \<open>
  Then the calls as Phase 3 makes them, inside its \<^verbatim>\<open>try\<close>: each of the functions below
  returns the exception that ended the call, if any, and the world at that moment. A result
  is applied statement by statement, and the first exception ends the loop, so the results
  after it are not applied.
\<close>

definition create_file_run ::
  "generation_entry \<Rightarrow> path \<Rightarrow> world \<Rightarrow> exn option \<times> world" where
  "create_file_run entry working_dir_path w =
     (case file_path_of working_dir_path entry of
        Inl e \<Rightarrow> (Some e, w)
      | Inr file_path \<Rightarrow>
          (let w1 = utils_mkdir (path_parent file_path) w
           in case write_error w1 file_path of
                Some e \<Rightarrow> (Some e, w1)
              | None \<Rightarrow>
                  (None,
                   utils_write file_path (case e_content entry of None \<Rightarrow> [] | Some c \<Rightarrow> c)
                     w1)))"

fun apply_create_run ::
  "generation_entry list \<Rightarrow> path \<Rightarrow> world \<Rightarrow> exn option \<times> world" where
  "apply_create_run [] working_dir_path w = (None, w)"
| "apply_create_run (entry # rest) working_dir_path w =
     (if e_success entry \<and> truthy (e_content entry) then
        (case create_file_run entry working_dir_path w of
           (Some e, w') \<Rightarrow> (Some e, w')
         | (None, w') \<Rightarrow> apply_create_run rest working_dir_path w')
      else apply_create_run rest working_dir_path w)"

definition update_file_run ::
  "generation_entry \<Rightarrow> path \<Rightarrow> world \<Rightarrow> exn option \<times> world" where
  "update_file_run entry working_dir_path w =
     (case file_path_of working_dir_path entry of
        Inl e \<Rightarrow> (Some e, w)
      | Inr file_path \<Rightarrow>
          (case write_error w file_path of
             Some e \<Rightarrow> (Some e, w)
           | None \<Rightarrow>
               (None,
                utils_write file_path
                  (case e_updated_content entry of None \<Rightarrow> [] | Some c \<Rightarrow> c) w)))"

fun apply_update_run ::
  "generation_entry list \<Rightarrow> path \<Rightarrow> world \<Rightarrow> exn option \<times> world" where
  "apply_update_run [] working_dir_path w = (None, w)"
| "apply_update_run (entry # rest) working_dir_path w =
     (if e_success entry \<and> truthy (e_updated_content entry) then
        (case update_file_run entry working_dir_path w of
           (Some e, w') \<Rightarrow> (Some e, w')
         | (None, w') \<Rightarrow> apply_update_run rest working_dir_path w')
      else apply_update_run rest working_dir_path w)"

definition apply_generated_run ::
  "generation_dict \<Rightarrow> path \<Rightarrow> world \<Rightarrow> exn option \<times> world" where
  "apply_generated_run gen_results working_dir_path w =
     (case apply_create_run (create_results gen_results) working_dir_path w of
        (Some e, w') \<Rightarrow> (Some e, w')
      | (None, w') \<Rightarrow> apply_update_run (update_results gen_results) working_dir_path w')"

text \<open>
  The body of the \<^verbatim>\<open>try\<close> of \<^verbatim>\<open>_execute_phase3\<close> up to the generation results. The console
  branch reads \<^verbatim>\<open>result.content_strategy.decisions\<close> before it calls the generator.
\<close>

definition phase3_try :: "orchestrator \<Rightarrow> Result \<Rightarrow> exn + generation_dict" where
  "phase3_try orch result =
     (let c = collab orch; cfg = config orch;
          working_dir_path = working_directory_full_path result
      in if console_display orch then
           (case content_strategy result of
              None \<Rightarrow> Inl AttributeError
            | Some s \<Rightarrow>
                try_bind (extract_name c (repo_url cfg)) (\<lambda>name.
                  generator_process c (Some s) (material_summaries result)
                    working_dir_path name (working_directory result)))
         else generate_content orch result working_dir_path (working_directory result))"

text \<open>
  \<^verbatim>\<open>result.generation_results\<close> and the local \<^verbatim>\<open>generation_results\<close> are one dictionary, so
  the \<^verbatim>\<open>applied\<close> key set at the end is in the result. The results are stored and
  \<open>generation_ready\<close> is set before the apply step, which is inside the \<^verbatim>\<open>try\<close>: when it
  raises, the handler resets both, and what was written before stays written.
\<close>

definition execute_phase3 :: "orchestrator \<Rightarrow> Result \<Rightarrow> world \<Rightarrow> Result \<times> world" where
  "execute_phase3 orch result w0 =
     (let w = reset_phase 3 w0;
          working_dir_path = working_directory_full_path result
      in case phase3_try orch result of
           Inl e \<Rightarrow> (handle_phase3_error result e, w)
         | Inr gen_results \<Rightarrow>
             (let stored_result =
                    result\<lparr>generation_results := Some gen_results, generation_ready := True\<rparr>
              in if apply_changes (config orch) then
                   (case apply_generated_run gen_results working_dir_path w of
                      (Some e, w') \<Rightarrow> (handle_phase3_error stored_result e, w')
                    | (None, w') \<Rightarrow>
                        (stored_result\<lparr>generation_results :=
                                         Some (gen_results\<lparr>g_applied := Some True\<rparr>)\<rparr>, w'))
                 else
                   (stored_result\<lparr>generation_results :=
                                    Some (gen_results\<lparr>g_applied := Some False\<rparr>)\<rparr>, w)))"

subsection \<open>Phase 4: TOC management\<close>

definition run_toc_phase ::
  "orchestrator \<Rightarrow> path \<Rightarrow> string list \<Rightarrow> string list \<Rightarrow> ContentStrategy option \<Rightarrow> exn + toc_dict"
  where
  "run_toc_phase orch working_dir_path created updated strategy =
     toc_process (collab orch) working_dir_path created updated
       (case strategy of None \<Rightarrow> [] | Some s \<Rightarrow> decisions s)"

definition apply_toc_changes :: "toc_dict \<Rightarrow> path \<Rightarrow> world \<Rightarrow> world" where
  "apply_toc_changes toc working_dir_path w =
     (let toc_path = path_div working_dir_path ''TOC.yml'';
          updated_content = (case t_content toc of None \<Rightarrow> [] | Some c \<Rightarrow> c)
      in if updated_content = [] then w else utils_write toc_path updated_content w)"

definition handle_phase4_error :: "Result \<Rightarrow> exn \<Rightarrow> Result" where
  "handle_phase4_error result e = result\<lparr>toc_results := None, toc_ready := False\<rparr>"

text \<open>
  The body of the \<^verbatim>\<open>try\<close> of \<^verbatim>\<open>_execute_phase4\<close> up to the TOC results.
  \<^verbatim>\<open>result.generation_results.get\<close> is an \<^verbatim>\<open>AttributeError\<close> when the results are \<^verbatim>\<open>None\<close>.
\<close>

definition phase4_try :: "orchestrator \<Rightarrow> Result \<Rightarrow> exn + toc_dict" where
  "phase4_try orch result =
     (let working_dir_path = working_directory_full_path result
      in case generation_results result of
           None \<Rightarrow> Inl AttributeError
         | Some gen_results \<Rightarrow>
             if console_display orch then
               toc_process (collab orch) working_dir_path (created_files gen_results)
                 (updated_files gen_results)
                 (case content_strategy result of None \<Rightarrow> [] | Some s \<Rightarrow> decisions s)
             else
               run_toc_phase orch working_dir_path (created_files gen_results)
                 (updated_files gen_results) (content_strategy result))"

text \<open>
  The source writes the step "apply if requested" once in each branch of
  \<^verbatim>\<open>if self.console_display\<close>, with the same condition and the same effect. The manifest is
  written with \<open>utils_write\<close>: of the calls of Phase 4, the model has the TOC processor
  raise, not the file system.
\<close>

definition execute_phase4 :: "orchestrator \<Rightarrow> Result \<Rightarrow> world \<Rightarrow> Result \<times> world" where
  "execute_phase4 orch result w0 =
     (let w = reset_phase 4 w0;
          working_dir_path = working_directory_full_path result
      in case phase4_try orch result of
           Inl e \<Rightarrow> (handle_phase4_error result e, w)
         | Inr toc \<Rightarrow>
             if apply_changes (config orch) \<and> t_success toc \<and> t_changes_made toc then
               (result\<lparr>toc_results := Some (toc\<lparr>t_applied := Some True\<rparr>), toc_ready := True\<rparr>,
                apply_toc_changes toc working_dir_path w)
             else
               (result\<lparr>toc_results := Some (toc\<lparr>t_applied := Some False\<rparr>), toc_ready := True\<rparr>,
                w))"

subsection \<open>The workflow\<close>

text \<open>
  The code has one \<^verbatim>\<open>Result\<close> object that the phases mutate; the model passes it on from
  phase to phase. When Phase 4 is requested and the skip flag is set, the code only reports
  the skip.
\<close>

definition execute :: "orchestrator \<Rightarrow> world \<Rightarrow> (error + Result) \<times> world" where
  "execute orch w =
     (case parse_max_phase orch of
        Inl e \<Rightarrow> (Inl (Propagated e), w)
      | Inr max_phase \<Rightarrow>
     (case execute_phase1 orch w of
        (Inl e, w1) \<Rightarrow> (Inl e, w1)
      | (Inr result1, w1) \<Rightarrow>
     (case (if max_phase \<ge> 2 \<and> directory_ready result1
            then execute_phase2 orch result1 w1 else (Inr result1, w1)) of
        (Inl e, w2) \<Rightarrow> (Inl (Propagated e), w2)
      | (Inr result2, w2) \<Rightarrow>
     (case (if max_phase \<ge> 3 \<and> strategy_ready result2
            then execute_phase3 orch result2 w2 else (result2, w2)) of
        (result3, w3) \<Rightarrow>
          if max_phase \<ge> 4 \<and> generation_ready result3 \<and> \<not> skip_toc (config orch)
          then (case execute_phase4 orch result3 w3 of (result4, w4) \<Rightarrow> (Inr result4, w4))
          else if max_phase \<ge> 4 \<and> skip_toc (config orch) then (Inr result3, w3)
          else (Inr result3, w3)))))"

text \<open>Phase \<open>n\<close> was executed between two states of the world: the tracker was reset for it.\<close>

definition phases_run :: "world \<Rightarrow> world \<Rightarrow> nat list" where
  "phases_run w w' = drop (length (step_tracker w)) (step_tracker w')"

subsection \<open>A sample run\<close>

text \<open>
  Concrete collaborators for the instances below: a headless run over all phases in apply
  mode, in which the detector proposes the directory docs with confidence 0.7, the strategy
  has one file to create and one to update, and the TOC processor returns a new manifest.
\<close>

definition sample_selection :: selection where
  "sample_selection =
     \<lparr>d_working_directory = Present ''docs'', d_justification = Present ''the articles'',
      d_confidence = Present 0.7, d_error = Absent\<rparr>"

definition sample_strategy :: ContentStrategy where
  "sample_strategy =
     \<lparr>confidence = 0.9,
      decisions = [\<lparr>action = ''CREATE'', filename = Present ''new.md''\<rparr>,
                   \<lparr>action = ''UPDATE'', filename = Present ''old.md''\<rparr>],
      summary = ''one new file, one update'', strategy_error = None\<rparr>"

definition sample_generation :: generation_dict where
  "sample_generation =
     \<lparr>create_results =
        [\<lparr>e_success = True, e_action = Present \<lparr>action = ''CREATE'', filename = Present ''new.md''\<rparr>,
          e_content = Some ''# New'', e_updated_content = None\<rparr>],
      update_results =
        [\<lparr>e_success = True, e_action = Present \<lparr>action = ''UPDATE'', filename = Present ''old.md''\<rparr>,
          e_content = None, e_updated_content = Some ''# Old, revised''\<rparr>],
      created_files = [''new.md''], updated_files = [''old.md''], g_applied = None\<rparr>"

definition sample_toc :: toc_dict where
  "sample_toc =
     \<lparr>t_success = True, t_changes_made = True, t_entries_added = [''new.md''],
      t_content = Some ''items: old.md, new.md'', t_message = Some ''added 1 entry'',
      t_applied = None\<rparr>"

definition sample_collab :: collaborators where
  "sample_collab =
     \<lparr>clone_or_update = (\<lambda>url dir f. (Inr ''/work/repo'', f)),
      extract_name = (\<lambda>url. Inr ''repo''),
      get_structure = (\<lambda>p depth. Inr ''docs/''),
      material_process = (\<lambda>ms p. Inr [''a summary'']),
      detector_process = (\<lambda>p s ms. Inr sample_selection),
      dir_confirm = (\<lambda>r s failed err.
        case r of None \<Rightarrow> Inl (Exception ''ValueError'' err) | Some d \<Rightarrow> Inr d),
      discovery_process = (\<lambda>p name dir. Inr [''a chunk'']),
      strategy_process = (\<lambda>chunks ms cfg name dir. Inr sample_strategy),
      strategy_answer = (\<lambda>s. Inr s),
      generator_process = (\<lambda>s ms p name dir. Inr sample_generation),
      toc_process = (\<lambda>p created updated ds. Inr sample_toc)\<rparr>"

definition sample_config :: config where
  "sample_config =
     \<lparr>phases = ''all'', auto_confirm = True, apply_changes = True, skip_toc = False,
      repo_url = ''https://example.org/repo.git'', work_dir = ''/work'',
      support_materials = [], max_repo_depth = 3,
      content_goal = ''document the feature'', service_area = ''storage''\<rparr>"

definition sample_orch :: orchestrator where
  "sample_orch =
     \<lparr>config = sample_config, console_display = False, collab = sample_collab, MAX_PHASES = 4\<rparr>"

definition sample_world :: world where
  "sample_world =
     \<lparr>fs = \<lparr>files = [(''/work/repo/docs/old.md'', ''# Old'')],
             dirs = [''/work/repo'', ''/work/repo/docs'']\<rparr>,
      writes = [], step_tracker = []\<rparr>"

text \<open>The result of Phase 1 in the sample run, and the same after Phase 2 and after Phase 3.\<close>

definition sample_result1 :: Result where
  "sample_result1 =
     \<lparr>working_directory = ''docs'', justification = Some ''the articles'',
      r_confidence = Some 0.7,
      r_repo_url = ''https://example.org/repo.git'', r_repo_path = ''/work/repo'',
      material_summaries = [''a summary''],
      r_content_goal = ''document the feature'', r_service_area = ''storage'',
      directory_ready = True, working_directory_full_path = ''/work/repo/docs'',
      setup_error = None,
      content_strategy = None, strategy_ready = False,
      generation_results = None, generation_ready = False,
      toc_results = None, toc_ready = False\<rparr>"

definition sample_result2 :: Result where
  "sample_result2 = sample_result1\<lparr>content_strategy := Some sample_strategy, strategy_ready := True\<rparr>"

definition sample_result3 :: Result where
  "sample_result3 =
     sample_result2\<lparr>generation_results := Some (sample_generation\<lparr>g_applied := Some True\<rparr>),
       generation_ready := True\<rparr>"

text \<open>
  Variations: a collaborator that raises; generation results in which a successful CREATE
  result has empty content and two successful CREATE results name the same file; TOC results
  that report success and changes without content, and TOC results that report failure.
\<close>

definition connection_error :: exn where
  "connection_error = Exception ''ConnectionError'' ''connection refused''"

definition clash_generation :: generation_dict where
  "clash_generation =
     \<lparr>create_results =
        [\<lparr>e_success = True, e_action = Present \<lparr>action = ''CREATE'', filename = Present ''empty.md''\<rparr>,
          e_content = Some [], e_updated_content = None\<rparr>,
         \<lparr>e_success = True, e_action = Present \<lparr>action = ''CREATE'', filename = Present ''twice.md''\<rparr>,
          e_content = Some ''first'', e_updated_content = None\<rparr>,
         \<lparr>e_success = True, e_action = Present \<lparr>action = ''CREATE'', filename = Present ''twice.md''\<rparr>,
          e_content = Some ''second'', e_updated_content = None\<rparr>],
      update_results = [],
      created_files = [''empty.md'', ''twice.md'', ''twice.md''], updated_files = [],
      g_applied = None\<rparr>"

text \<open>
  Generation results whose one CREATE result has content and no filename, and generation
  results whose one CREATE result names a file by an absolute path.
\<close>

definition nameless_generation :: generation_dict where
  "nameless_generation =
     \<lparr>create_results =
        [\<lparr>e_success = True, e_action = Present \<lparr>action = ''CREATE'', filename = Absent\<rparr>,
          e_content = Some ''# New'', e_updated_content = None\<rparr>],
      update_results = [], created_files = [], updated_files = [], g_applied = None\<rparr>"

definition outside_generation :: generation_dict where
  "outside_generation =
     \<lparr>create_results =
        [\<lparr>e_success = True,
          e_action = Present \<lparr>action = ''CREATE'', filename = Present ''/work/other/x.md''\<rparr>,
          e_content = Some ''# New'', e_updated_content = None\<rparr>],
      update_results = [], created_files = [''/work/other/x.md''], updated_files = [],
      g_applied = None\<rparr>"

definition contentless_toc :: toc_dict where
  "contentless_toc = sample_toc\<lparr>t_content := None\<rparr>"

definition failed_toc :: toc_dict where
  "failed_toc =
     \<lparr>t_success = False, t_changes_made = False, t_entries_added = [], t_content = None,
      t_message = Some ''no TOC.yml found'', t_applied = None\<rparr>"

definition with_generator :: "orchestrator \<Rightarrow> exn + generation_dict \<Rightarrow> orchestrator" where
  "with_generator orch outcome =
     orch\<lparr>collab := (collab orch)\<lparr>generator_process := (\<lambda>s ms p name dir. outcome)\<rparr>\<rparr>"

definition with_toc :: "orchestrator \<Rightarrow> exn + toc_dict \<Rightarrow> orchestrator" where
  "with_toc orch outcome =
     orch\<lparr>collab := (collab orch)\<lparr>toc_process := (\<lambda>p created updated ds. outcome)\<rparr>\<rparr>"

definition with_strategy :: "orchestrator \<Rightarrow> exn + ContentStrategy \<Rightarrow> orchestrator" where
  "with_strategy orch outcome =
     orch\<lparr>collab := (collab orch)\<lparr>strategy_process := (\<lambda>chunks ms cfg name dir. outcome)\<rparr>\<rparr>"

definition with_detector :: "orchestrator \<Rightarrow> exn + selection \<Rightarrow> orchestrator" where
  "with_detector orch outcome =
     orch\<lparr>collab := (collab orch)\<lparr>detector_process := (\<lambda>p s ms. outcome)\<rparr>\<rparr>"

definition with_phases :: "orchestrator \<Rightarrow> string \<Rightarrow> orchestrator" where
  "with_phases orch s = orch\<lparr>config := (config orch)\<lparr>phases := s\<rparr>\<rparr>"

definition preview :: "orchestrator \<Rightarrow> orchestrator" where
  "preview orch = orch\<lparr>config := (config orch)\<lparr>apply_changes := False\<rparr>\<rparr>"

subsection \<open>Vocabulary of the statements\<close>

text \<open>
  The results that Phase 3 applies, and the calls of \<^verbatim>\<open>write\<close> they stand for, in the order
  of the list.
\<close>

definition create_applies :: "generation_entry \<Rightarrow> bool" where
  "create_applies entry = (e_success entry \<and> truthy (e_content entry))"

definition update_applies :: "generation_entry \<Rightarrow> bool" where
  "update_applies entry = (e_success entry \<and> truthy (e_updated_content entry))"

definition create_writes :: "path \<Rightarrow> generation_entry list \<Rightarrow> (path \<times> string) list" where
  "create_writes working_dir_path entries =
     map (\<lambda>e. (target working_dir_path e, case e_content e of None \<Rightarrow> [] | Some c \<Rightarrow> c))
       (filter create_applies entries)"

definition update_writes :: "path \<Rightarrow> generation_entry list \<Rightarrow> (path \<times> string) list" where
  "update_writes working_dir_path entries =
     map (\<lambda>e. (target working_dir_path e, case e_updated_content e of None \<Rightarrow> [] | Some c \<Rightarrow> c))
       (filter update_applies entries)"

text \<open>
  What a file holds after a sequence of writes \<open>ws\<close>, when \<open>f\<close> tells what it held before:
  the content of the last write to its path.
\<close>

definition after_writes ::
  "(path \<times> string) list \<Rightarrow> (path \<Rightarrow> string option) \<Rightarrow> path \<Rightarrow> string option" where
  "after_writes ws f q = (case map_of (rev ws) q of None \<Rightarrow> f q | Some c \<Rightarrow> Some c)"

text \<open>
  A component of a path: not empty, not \<^verbatim>\<open>.\<close>, without a slash.
  A name that stays below the directory it is joined to: relative, with at least one
  component, none of them \<^verbatim>\<open>..\<close>. A path without \<^verbatim>\<open>..\<close>: two such paths in normal form are
  one file only if they are one string (the file system has no links). A path lies under a
  directory when it has the root and the components of the directory, then at least one
  more, none of them \<^verbatim>\<open>..\<close>.
\<close>

definition valid_part :: "string \<Rightarrow> bool" where
  "valid_part x = (x \<noteq> [] \<and> x \<noteq> ''.'' \<and> CHR ''/'' \<notin> set x)"

definition clean_name :: "string \<Rightarrow> bool" where
  "clean_name f = (path_root f = [] \<and> path_parts f \<noteq> [] \<and> ''..'' \<notin> set (path_parts f))"

definition dotdot_free :: "path \<Rightarrow> bool" where
  "dotdot_free p = (''..'' \<notin> set (path_parts p))"

definition under_dir :: "path \<Rightarrow> path \<Rightarrow> bool" where
  "under_dir d p =
     (path_root p = path_root d \<and> strict_prefix (path_parts d) (path_parts p)
      \<and> ''..'' \<notin> set (drop (length (path_parts d)) (path_parts p)))"

text \<open>
  None of the writes \<open>ws\<close> goes to the file at \<open>p\<close>: \<open>p\<close> has no \<^verbatim>\<open>..\<close>, and each of the
  writes has a path without \<^verbatim>\<open>..\<close> that is not \<open>p\<close>.
\<close>

definition not_written_by :: "path \<Rightarrow> (path \<times> string) list \<Rightarrow> bool" where
  "not_written_by p ws =
     (dotdot_free p \<and> list_all (\<lambda>q. dotdot_free q \<and> q \<noteq> p) (map fst ws))"

section \<open>Properties\<close>

subsection \<open>Paths\<close>

text \<open>
  The string of a path gives back its root and its components, and joining a relative name
  to a directory appends the components of the name to those of the directory.
\<close>

lemmas path_simps =
  path_div_def Path_def path_root_def path_parts_def path_of_def path_name_def path_parent_def
  path_ancestors_def

lemma components_nonempty [simp]: "components s \<noteq> []"
  by (induction s) (auto split: list.splits)

lemma components_no_slash: "x \<in> set (components s) \<Longrightarrow> CHR ''/'' \<notin> set x"
  by (induction s arbitrary: x) (auto split: list.splits if_splits)

lemma components_slash: "components (a @ CHR ''/'' # b) = components a @ components b"
  by (induction a) (auto split: list.splits)

lemma components_plain: "CHR ''/'' \<notin> set x \<Longrightarrow> components x = [x]"
  by (induction x) auto

lemma path_parts_valid: "x \<in> set (path_parts s) \<Longrightarrow> valid_part x"
  by (auto simp: path_parts_def valid_part_def dest: components_no_slash)

lemma path_parts_all_valid: "list_all valid_part (path_parts s)"
  by (simp add: list_all_iff path_parts_valid)

lemma path_parts_join: "list_all valid_part ps \<Longrightarrow> path_parts (join_slash ps) = ps"
proof (induction ps rule: join_slash.induct)
  case 1
  then show ?case by (simp add: path_parts_def)
next
  case (2 x)
  then show ?case by (simp add: path_parts_def valid_part_def components_plain)
next
  case (3 x y ys)
  then have "path_parts (join_slash (y # ys)) = y # ys" by simp
  moreover from 3 have "components x = [x]" "x \<noteq> []" "x \<noteq> ''.''"
    by (simp_all add: valid_part_def components_plain)
  ultimately show ?case
    by (simp add: path_parts_def components_slash)
qed

lemma path_parts_slash [simp]: "path_parts (CHR ''/'' # s) = path_parts s"
  by (simp add: path_parts_def)

lemma path_root_cases: "path_root s = [] \<or> path_root s = ''/'' \<or> path_root s = ''//''"
  by (simp add: path_root_def)

lemma join_slash_hd:
  assumes "list_all valid_part ps" "ps \<noteq> []"
  shows "\<exists>c cs. join_slash ps = c # cs \<and> c \<noteq> CHR ''/''"
proof (cases ps)
  case Nil
  with assms show ?thesis by simp
next
  case (Cons x xs)
  with assms obtain c cs where x: "x = c # cs" "c \<noteq> CHR ''/''"
    by (cases x) (auto simp: valid_part_def)
  then show ?thesis using Cons by (cases xs) auto
qed

lemma path_root_of:
  assumes "rt = [] \<or> rt = ''/'' \<or> rt = ''//''" "list_all valid_part ps"
  shows "path_root (path_of rt ps) = rt"
proof (cases "ps = []")
  case True
  with assms(1) show ?thesis by (auto simp: path_of_def path_root_def)
next
  case False
  from join_slash_hd [OF assms(2) False] obtain c cs
    where "join_slash ps = c # cs" "c \<noteq> CHR ''/''" by blast
  with assms(1) False show ?thesis by (auto simp: path_of_def path_root_def)
qed

lemma path_parts_of:
  assumes "rt = [] \<or> rt = ''/'' \<or> rt = ''//''" "list_all valid_part ps"
  shows "path_parts (path_of rt ps) = ps"
proof (cases "rt = [] \<and> ps = []")
  case True
  then show ?thesis by (simp add: path_of_def path_parts_def)
next
  case False
  with assms(1) path_parts_join [OF assms(2)] show ?thesis
    by (auto simp: path_of_def)
qed

lemma path_parts_div:
  assumes "path_root f = []"
  shows "path_parts (path_div p f) = path_parts p @ path_parts f"
  using assms path_root_cases [of p]
  by (simp add: path_div_def path_parts_of path_parts_all_valid)

lemma path_root_div:
  assumes "path_root f = []"
  shows "path_root (path_div p f) = path_root p"
  using assms path_root_cases [of p]
  by (simp add: path_div_def path_root_of path_parts_all_valid)

lemma div_under_dir:
  assumes "path_root f = []" "path_parts f \<noteq> []" "''..'' \<notin> set (path_parts f)"
  shows "under_dir wd (path_div wd f)"
  using assms by (simp add: under_dir_def path_parts_div path_root_div strict_prefix_def)

lemma div_parent:
  assumes "path_root f = []" "path_parts f \<noteq> []"
  shows "path_parts (path_parent (path_div wd f)) = path_parts wd @ butlast (path_parts f)"
proof -
  have v: "list_all valid_part (butlast (path_parts wd @ path_parts f))"
  proof -
    have "set (butlast (path_parts wd @ path_parts f)) \<subseteq> set (path_parts wd @ path_parts f)"
      by (auto dest: in_set_butlastD)
    then show ?thesis
      using path_parts_valid [of _ wd] path_parts_valid [of _ f]
      by (auto simp: list_all_iff)
  qed
  show ?thesis
    using assms path_root_cases [of wd] v
    by (simp add: path_parent_def path_parts_div path_root_div path_parts_of butlast_append)
qed

subsection \<open>The world under the operations\<close>

lemma fs_reset [simp]: "fs (reset_phase n w) = fs w"
  by (simp add: reset_phase_def)

lemma set_fold_insert: "set (fold List.insert xs ys) = set xs \<union> set ys"
  by (induction xs arbitrary: ys) auto

lemma dirs_write [simp]: "dirs (fs (utils_write p c w)) = dirs (fs w)"
  by (simp add: utils_write_def)

lemma is_dir_mkdir: "is_dir (fs (utils_mkdir p w)) p"
  by (simp add: is_dir_def utils_mkdir_def set_fold_insert)

lemma is_dir_mkdir_mono: "is_dir (fs w) d \<Longrightarrow> is_dir (fs (utils_mkdir p w)) d"
  by (simp add: is_dir_def utils_mkdir_def set_fold_insert)

lemma is_dir_write [simp]: "is_dir (fs (utils_write p c w)) d = is_dir (fs w) d"
  by (simp add: is_dir_def)

lemma tracker_write [simp]: "step_tracker (utils_write p c w) = step_tracker w"
  by (simp add: utils_write_def)

lemma tracker_mkdir [simp]: "step_tracker (utils_mkdir p w) = step_tracker w"
  by (simp add: utils_mkdir_def)

lemma tracker_reset [simp]: "step_tracker (reset_phase n w) = step_tracker w @ [n]"
  by (simp add: reset_phase_def)

lemma writes_write [simp]: "writes (utils_write p c w) = writes w @ [(p, c)]"
  by (simp add: utils_write_def)

lemma writes_mkdir [simp]: "writes (utils_mkdir p w) = writes w"
  by (simp add: utils_mkdir_def)

lemma writes_reset [simp]: "writes (reset_phase n w) = writes w"
  by (simp add: reset_phase_def)

lemma read_write [simp]:
  "read_file (utils_write p c w) q = (if q = p then Some c else read_file w q)"
  by (simp add: read_file_def utils_write_def update_conv')

lemma read_mkdir [simp]: "read_file (utils_mkdir p w) q = read_file w q"
  by (simp add: read_file_def utils_mkdir_def)

lemma read_reset [simp]: "read_file (reset_phase n w) q = read_file w q"
  by (simp add: read_file_def reset_phase_def)

lemma tracker_create_file [simp]: "step_tracker (create_file e wd w) = step_tracker w"
  by (simp add: create_file_def Let_def)

lemma tracker_update_file [simp]: "step_tracker (update_file e wd w) = step_tracker w"
  by (simp add: update_file_def Let_def)

lemma tracker_apply_create [simp]: "step_tracker (apply_create_actions es wd w) = step_tracker w"
  by (induction es arbitrary: w) simp_all

lemma tracker_apply_update [simp]: "step_tracker (apply_update_actions es wd w) = step_tracker w"
  by (induction es arbitrary: w) simp_all

lemma tracker_apply_generated [simp]:
  "step_tracker (apply_generated_content g wd w) = step_tracker w"
  by (simp add: apply_generated_content_def)

lemma tracker_apply_toc [simp]: "step_tracker (apply_toc_changes t wd w) = step_tracker w"
  by (simp add: apply_toc_changes_def Let_def)

lemma phases_run_append:
  "step_tracker w' = step_tracker w @ xs \<Longrightarrow> phases_run w w' = xs"
  by (simp add: phases_run_def)

subsection \<open>The apply step: a run that returns\<close>

text \<open>
  When no call raises, the world after the run is the world of the calls that return.
\<close>

lemma create_file_run_returns:
  assumes "create_file_run e wd w = (None, w')"
  shows "w' = create_file e wd w"
  using assms
  by (auto simp: create_file_run_def create_file_def target_def Let_def
           split: sum.splits option.splits)

lemma update_file_run_returns:
  assumes "update_file_run e wd w = (None, w')"
  shows "w' = update_file e wd w"
  using assms
  by (auto simp: update_file_run_def update_file_def target_def Let_def
           split: sum.splits option.splits)

lemma apply_create_run_returns:
  "apply_create_run es wd w = (None, w') \<Longrightarrow> w' = apply_create_actions es wd w"
proof (induction es arbitrary: w)
  case Nil
  then show ?case by simp
next
  case (Cons e es)
  show ?case
  proof (cases "e_success e \<and> truthy (e_content e)")
    case False
    with Cons show ?thesis by auto
  next
    case True
    obtain r w1 where c: "create_file_run e wd w = (r, w1)" by force
    with Cons.prems True have r: "r = None" and rest: "apply_create_run es wd w1 = (None, w')"
      by (cases r; simp)+
    from c r have "w1 = create_file e wd w" by (simp add: create_file_run_returns)
    with Cons.IH [OF rest] True show ?thesis by simp
  qed
qed

lemma apply_update_run_returns:
  "apply_update_run es wd w = (None, w') \<Longrightarrow> w' = apply_update_actions es wd w"
proof (induction es arbitrary: w)
  case Nil
  then show ?case by simp
next
  case (Cons e es)
  show ?case
  proof (cases "e_success e \<and> truthy (e_updated_content e)")
    case False
    with Cons show ?thesis by auto
  next
    case True
    obtain r w1 where c: "update_file_run e wd w = (r, w1)" by force
    with Cons.prems True have r: "r = None" and rest: "apply_update_run es wd w1 = (None, w')"
      by (cases r; simp)+
    from c r have "w1 = update_file e wd w" by (simp add: update_file_run_returns)
    with Cons.IH [OF rest] True show ?thesis by simp
  qed
qed

lemma apply_generated_run_returns:
  assumes "fst (apply_generated_run g wd w) = None"
  shows "apply_generated_run g wd w = (None, apply_generated_content g wd w)"
proof -
  obtain r w1 where c: "apply_create_run (create_results g) wd w = (r, w1)" by force
  with assms have r: "r = None"
    by (cases r) (simp_all add: apply_generated_run_def)
  from c r have w1: "w1 = apply_create_actions (create_results g) wd w"
    by (simp add: apply_create_run_returns)
  obtain r2 w2 where u: "apply_update_run (update_results g) wd w1 = (r2, w2)" by force
  with assms c r have r2: "r2 = None"
    by (simp add: apply_generated_run_def)
  from u r2 have "w2 = apply_update_actions (update_results g) wd w1"
    by (simp add: apply_update_run_returns)
  with c r u r2 w1 show ?thesis
    by (simp add: apply_generated_run_def apply_generated_content_def)
qed

lemma phase3_preview:
  assumes "phase3_try orch result = Inr g" "\<not> apply_changes (config orch)"
  shows "execute_phase3 orch result w =
     (result\<lparr>generation_results := Some (g\<lparr>g_applied := Some False\<rparr>),
             generation_ready := True\<rparr>, reset_phase 3 w)"
  using assms by (simp add: execute_phase3_def Let_def)

lemma phase3_applied:
  assumes "phase3_try orch result = Inr g" "apply_changes (config orch)"
      and "fst (apply_generated_run g (working_directory_full_path result) (reset_phase 3 w))
             = None"
  shows "execute_phase3 orch result w =
     (result\<lparr>generation_results := Some (g\<lparr>g_applied := Some True\<rparr>),
             generation_ready := True\<rparr>,
      apply_generated_content g (working_directory_full_path result) (reset_phase 3 w))"
  using assms(1,2) apply_generated_run_returns [OF assms(3)]
  by (simp add: execute_phase3_def Let_def)

lemma phase3_apply_raised:
  assumes "phase3_try orch result = Inr g" "apply_changes (config orch)"
      and "fst (apply_generated_run g (working_directory_full_path result) (reset_phase 3 w))
             = Some x"
  shows "execute_phase3 orch result w =
     (result\<lparr>generation_results := None, generation_ready := False\<rparr>,
      snd (apply_generated_run g (working_directory_full_path result) (reset_phase 3 w)))"
  using assms
  by (cases "apply_generated_run g (working_directory_full_path result) (reset_phase 3 w)")
     (simp add: execute_phase3_def Let_def handle_phase3_error_def)

lemma phase3_raised:
  assumes "phase3_try orch result = Inl e"
  shows "execute_phase3 orch result w =
     (result\<lparr>generation_results := None, generation_ready := False\<rparr>, reset_phase 3 w)"
  using assms by (simp add: execute_phase3_def handle_phase3_error_def)

subsection \<open>Each phase: the tracker and the flags of the other phases\<close>

lemma phase1_tracker: "step_tracker (snd (execute_phase1 orch w)) = step_tracker w @ [1]"
  by (simp add: execute_phase1_def Let_def split: prod.splits sum.splits)

lemma create_result_fresh:
  assumes "create_phase1_result orch wd confirmed sr rp ms = Inr r"
  shows "\<not> strategy_ready r \<and> \<not> generation_ready r \<and> \<not> toc_ready r
         \<and> content_strategy r = None \<and> generation_results r = None \<and> toc_results r = None
         \<and> directory_ready r = s_success sr"
  using assms by (auto simp: create_phase1_result_def split: if_splits)

lemma phase1_fresh:
  assumes "execute_phase1 orch w = (Inr r, w1)"
  shows "\<not> strategy_ready r \<and> \<not> generation_ready r \<and> \<not> toc_ready r
         \<and> content_strategy r = None \<and> generation_results r = None \<and> toc_results r = None"
proof -
  from assms obtain wd confirmed sr rp ms
    where "create_phase1_result orch wd confirmed sr rp ms = Inr r"
    by (auto simp: execute_phase1_def finish_phase1_def Let_def propagate_def
             split: prod.splits sum.splits option.splits slot.splits if_splits)
  from create_result_fresh [OF this] show ?thesis by simp
qed

text \<open>With the failure strategy of the spec, the handler of Phase 2 returns.\<close>

lemma phase2_total: "\<exists>r. execute_phase2 orch result w = (Inr r, reset_phase 2 w)"
  by (simp add: execute_phase2_def Let_def handle_phase2_error_def strategy_confirm_def
        try_bind_def split: sum.splits)

lemma phase2_flags:
  assumes "execute_phase2 orch result w = (Inr r, w')"
  shows "directory_ready r = directory_ready result
     \<and> generation_ready r = generation_ready result
     \<and> generation_results r = generation_results result"
  using assms
  by (auto simp: execute_phase2_def Let_def handle_phase2_error_def strategy_confirm_def
        try_bind_def split: sum.splits)

lemma tracker_create_file_run [simp]:
  "step_tracker (snd (create_file_run e wd w)) = step_tracker w"
  by (simp add: create_file_run_def Let_def split: sum.splits option.splits)

lemma tracker_update_file_run [simp]:
  "step_tracker (snd (update_file_run e wd w)) = step_tracker w"
  by (simp add: update_file_run_def split: sum.splits option.splits)

lemma tracker_apply_create_run [simp]:
  "step_tracker (snd (apply_create_run es wd w)) = step_tracker w"
proof (induction es arbitrary: w)
  case Nil
  then show ?case by simp
next
  case (Cons e es)
  obtain r w1 where c: "create_file_run e wd w = (r, w1)" by force
  then have "step_tracker w1 = step_tracker w"
    using tracker_create_file_run [of e wd w] by simp
  with Cons c show ?case by (cases r) auto
qed

lemma tracker_apply_update_run [simp]:
  "step_tracker (snd (apply_update_run es wd w)) = step_tracker w"
proof (induction es arbitrary: w)
  case Nil
  then show ?case by simp
next
  case (Cons e es)
  obtain r w1 where c: "update_file_run e wd w = (r, w1)" by force
  then have "step_tracker w1 = step_tracker w"
    using tracker_update_file_run [of e wd w] by simp
  with Cons c show ?case by (cases r) auto
qed

lemma tracker_apply_generated_run [simp]:
  "step_tracker (snd (apply_generated_run g wd w)) = step_tracker w"
proof -
  obtain r w1 where c: "apply_create_run (create_results g) wd w = (r, w1)" by force
  then have "step_tracker w1 = step_tracker w"
    using tracker_apply_create_run [of "create_results g" wd w] by simp
  with c show ?thesis by (cases r) (auto simp: apply_generated_run_def)
qed

lemma phase3_tracker: "step_tracker (snd (execute_phase3 orch r w)) = step_tracker w @ [3]"
proof (cases "phase3_try orch r")
  case (Inl e)
  then show ?thesis by (simp add: execute_phase3_def Let_def)
next
  case (Inr g)
  obtain x w1 where run:
    "apply_generated_run g (working_directory_full_path r) (reset_phase 3 w) = (x, w1)"
    by force
  then have "step_tracker w1 = step_tracker w @ [3]"
    using tracker_apply_generated_run [of g "working_directory_full_path r" "reset_phase 3 w"]
    by simp
  with Inr run show ?thesis
    by (cases x) (simp_all add: execute_phase3_def Let_def)
qed

lemma phase3_flags:
  "directory_ready (fst (execute_phase3 orch r w)) = directory_ready r
   \<and> strategy_ready (fst (execute_phase3 orch r w)) = strategy_ready r"
  by (simp add: execute_phase3_def Let_def handle_phase3_error_def
        split: sum.splits prod.splits option.splits)

lemma phase4_tracker: "step_tracker (snd (execute_phase4 orch r w)) = step_tracker w @ [4]"
  by (simp add: execute_phase4_def Let_def split: sum.splits)

lemma phase4_flags:
  "directory_ready (fst (execute_phase4 orch r w)) = directory_ready r
   \<and> strategy_ready (fst (execute_phase4 orch r w)) = strategy_ready r
   \<and> generation_ready (fst (execute_phase4 orch r w)) = generation_ready r"
  by (simp add: execute_phase4_def Let_def handle_phase4_error_def split: sum.splits)

subsection \<open>The stages of the workflow\<close>

lemma execute_stages:
  assumes pm: "parse_max_phase orch = Inr m"
      and p1: "execute_phase1 orch w = (Inr r1, w1)"
  obtains r2 w2 r3 w3 r4 w4 where
    "(if m \<ge> 2 \<and> directory_ready r1 then execute_phase2 orch r1 w1 else (Inr r1, w1))
       = (Inr r2, w2)"
    "(if m \<ge> 3 \<and> strategy_ready r2 then execute_phase3 orch r2 w2 else (r2, w2)) = (r3, w3)"
    "(if m \<ge> 4 \<and> generation_ready r3 \<and> \<not> skip_toc (config orch)
      then execute_phase4 orch r3 w3 else (r3, w3)) = (r4, w4)"
    "execute orch w = (Inr r4, w4)"
proof -
  obtain r2 w2 where s2:
    "(if m \<ge> 2 \<and> directory_ready r1 then execute_phase2 orch r1 w1 else (Inr r1, w1))
       = (Inr r2, w2)"
    using phase2_total [of orch r1 w1] by (cases "m \<ge> 2 \<and> directory_ready r1") auto
  obtain r3 w3 where s3:
    "(if m \<ge> 3 \<and> strategy_ready r2 then execute_phase3 orch r2 w2 else (r2, w2)) = (r3, w3)"
    by (cases "if m \<ge> 3 \<and> strategy_ready r2 then execute_phase3 orch r2 w2 else (r2, w2)")
       blast
  obtain r4 w4 where s4:
    "(if m \<ge> 4 \<and> generation_ready r3 \<and> \<not> skip_toc (config orch)
      then execute_phase4 orch r3 w3 else (r3, w3)) = (r4, w4)"
    by (cases "if m \<ge> 4 \<and> generation_ready r3 \<and> \<not> skip_toc (config orch)
      then execute_phase4 orch r3 w3 else (r3, w3)") blast
  have "execute orch w = (Inr r4, w4)"
    unfolding execute_def pm p1 using s2 s3 s4
    by (auto split: if_splits prod.splits)
  with s2 s3 s4 show thesis by (rule that)
qed

text \<open>
  Which phases a run executes, by the result each gate reads: \<open>r1\<close> is the result of
  Phase 1, \<open>r2\<close> the result after the step of Phase 2, \<open>r3\<close> the result after the step of
  Phase 3.
\<close>

lemma execute_gates:
  assumes pm: "parse_max_phase orch = Inr m"
      and p1: "execute_phase1 orch w = (Inr r1, w1)"
      and ex: "execute orch w = (out, w')"
  shows "\<exists>r2 w2 r3 w3.
        (if m \<ge> 2 \<and> directory_ready r1 then execute_phase2 orch r1 w1 else (Inr r1, w1))
          = (Inr r2, w2)
      \<and> (if m \<ge> 3 \<and> strategy_ready r2 then execute_phase3 orch r2 w2 else (r2, w2)) = (r3, w3)
      \<and> phases_run w w' =
         [1] @ (if m \<ge> 2 \<and> directory_ready r1 then [2] else [])
             @ (if m \<ge> 3 \<and> strategy_ready r2 then [3] else [])
             @ (if m \<ge> 4 \<and> generation_ready r3 \<and> \<not> skip_toc (config orch) then [4] else [])"
proof -
  from pm p1 obtain r2 w2 r3 w3 r4 w4 where
    s2: "(if m \<ge> 2 \<and> directory_ready r1 then execute_phase2 orch r1 w1 else (Inr r1, w1))
           = (Inr r2, w2)"
    and s3: "(if m \<ge> 3 \<and> strategy_ready r2 then execute_phase3 orch r2 w2 else (r2, w2))
           = (r3, w3)"
    and s4: "(if m \<ge> 4 \<and> generation_ready r3 \<and> \<not> skip_toc (config orch)
      then execute_phase4 orch r3 w3 else (r3, w3)) = (r4, w4)"
    and e: "execute orch w = (Inr r4, w4)"
    by (rule execute_stages)
  from e ex have w': "w' = w4" by simp
  have t1: "step_tracker w1 = step_tracker w @ [1]"
    using phase1_tracker [of orch w] p1 by simp
  have t2: "step_tracker w2 =
      step_tracker w1 @ (if m \<ge> 2 \<and> directory_ready r1 then [2] else [])"
    using s2 phase2_total [of orch r1 w1] by (auto split: if_splits)
  have t3: "step_tracker w3 = step_tracker w2 @ (if m \<ge> 3 \<and> strategy_ready r2 then [3] else [])"
    using s3 phase3_tracker [of orch r2 w2] by (auto split: if_splits)
  have t4: "step_tracker w4 = step_tracker w3 @
      (if m \<ge> 4 \<and> generation_ready r3 \<and> \<not> skip_toc (config orch) then [4] else [])"
    using s4 phase4_tracker [of orch r3 w3] by (auto split: if_splits)
  have "step_tracker w4 = step_tracker w @
         ([1] @ (if m \<ge> 2 \<and> directory_ready r1 then [2] else [])
              @ (if m \<ge> 3 \<and> strategy_ready r2 then [3] else [])
              @ (if m \<ge> 4 \<and> generation_ready r3 \<and> \<not> skip_toc (config orch) then [4] else []))"
    by (simp add: t1 t2 t3 t4)
  from phases_run_append [OF this] s2 s3 w' show ?thesis by blast
qed

subsection \<open>The sample run, evaluated\<close>

lemma sample_parse: "parse_max_phase sample_orch = Inr 4"
  by (simp add: parse_max_phase_def sample_orch_def sample_config_def)

lemma sample_flags:
  "apply_changes (config sample_orch)" "\<not> skip_toc (config sample_orch)"
  "auto_confirm (config sample_orch)"
  by (simp_all add: sample_orch_def sample_config_def)

lemma sample_setup:
  "setup_directory (fs sample_world) ''/work/repo'' ''docs'' =
     \<lparr>s_success = True, s_full_path = ''/work/repo/docs'', s_markdown_count = Some 1,
      s_error = None\<rparr>"
  by (simp add: setup_directory_def normalize_working_directory_def path_simps
        validate_directory_def path_exists_def is_dir_def count_markdown_files_def rglob_md_def
        sample_world_def suffix_def)

lemma sample_phase1:
  "execute_phase1 sample_orch sample_world = (Inr sample_result1, reset_phase 1 sample_world)"
  by (simp add: execute_phase1_def finish_phase1_def propagate_def detect_directory_def
        auto_confirm_check_def slot_truthy_def stored_def create_phase1_result_def
        sample_setup [simplified sample_world_def, simplified]
        sample_orch_def sample_config_def sample_collab_def sample_selection_def
        sample_result1_def reset_phase_def sample_world_def)

lemma sample_paths:
  "working_directory_full_path sample_result1 = ''/work/repo/docs''"
  "working_directory_full_path sample_result2 = ''/work/repo/docs''"
  "working_directory_full_path sample_result3 = ''/work/repo/docs''"
  by (simp_all add: sample_result3_def sample_result2_def sample_result1_def)

lemma sample_ready:
  "directory_ready sample_result1" "strategy_ready sample_result2"
  "generation_ready sample_result3"
  by (simp_all add: sample_result1_def sample_result2_def sample_result3_def)

lemma sample_phase2_try: "phase2_try sample_orch sample_result1 = Inr sample_strategy"
  by (simp add: phase2_try_def discover_content_def generate_strategy_def strategy_confirm_def
        try_bind_def sample_orch_def sample_collab_def)

lemma sample_phase3_try: "phase3_try sample_orch sample_result2 = Inr sample_generation"
  by (simp add: phase3_try_def generate_content_def try_bind_def sample_orch_def
        sample_collab_def)

lemma sample_phase4_try: "phase4_try sample_orch sample_result3 = Inr sample_toc"
  by (simp add: phase4_try_def run_toc_phase_def sample_orch_def sample_collab_def
        sample_result3_def)

lemma sample_phase2:
  "execute_phase2 sample_orch sample_result1 w = (Inr sample_result2, reset_phase 2 w)"
  by (simp add: execute_phase2_def sample_phase2_try sample_result2_def sample_strategy_def)

lemma sample_dirs: "dirs (fs sample_world) = [''/work/repo'', ''/work/repo/docs'']"
  by (simp add: sample_world_def)

lemma sample_apply_run:
  assumes "dirs (fs w) = [''/work/repo'', ''/work/repo/docs'']"
  shows "fst (apply_generated_run sample_generation ''/work/repo/docs'' w) = None"
  using assms
  by (simp add: apply_generated_run_def create_file_run_def update_file_run_def
        file_path_of_def write_error_def is_dir_def utils_mkdir_def utils_write_def
        sample_generation_def truthy_def path_simps)

lemma sample_phase3:
  assumes "dirs (fs w) = [''/work/repo'', ''/work/repo/docs'']"
  shows "execute_phase3 sample_orch sample_result2 w =
     (sample_result3,
      apply_generated_content sample_generation ''/work/repo/docs'' (reset_phase 3 w))"
proof -
  have "fst (apply_generated_run sample_generation
          (working_directory_full_path sample_result2) (reset_phase 3 w)) = None"
    using assms by (simp add: sample_paths sample_apply_run)
  from phase3_applied [OF sample_phase3_try sample_flags(1) this] show ?thesis
    by (simp add: sample_paths sample_result3_def)
qed

lemma sample_run:
  "phases_run sample_world (snd (execute sample_orch sample_world)) = [1, 2, 3, 4]"
proof -
  have "step_tracker (snd (execute sample_orch sample_world))
          = step_tracker sample_world @ [1, 2, 3, 4]"
    using phase4_tracker [of sample_orch sample_result3
        "apply_generated_content sample_generation ''/work/repo/docs''
           (reset_phase 3 (reset_phase 2 (reset_phase 1 sample_world)))"]
    by (simp add: execute_def sample_parse sample_phase1 sample_phase2 sample_phase3
          sample_dirs sample_ready sample_flags case_prod_beta)
  then show ?thesis by (rule phases_run_append)
qed

subsection \<open>Phase gating\<close>

text \<open>
  C1. Whatever the configuration and whatever the earlier phases did: if a run executes
  Phase 2, the parsed \<open>max_phase\<close> is at least 2 and Phase 1 returned a result with
  \<open>directory_ready\<close>; if it executes Phase 3, \<open>max_phase\<close> is at least 3 and Phase 2 returned
  a result with \<open>strategy_ready\<close>; if it executes Phase 4, \<open>max_phase\<close> is at least 4, Phase 3
  returned a result with \<open>generation_ready\<close>, and the skip-TOC flag is not set.
\<close>

theorem phase_gating:
  assumes ex: "execute orch w = (out, w')"
  shows "(2 \<in> set (phases_run w w') \<longrightarrow>
            (\<exists>m r1 w1. parse_max_phase orch = Inr m \<and> m \<ge> 2
               \<and> execute_phase1 orch w = (Inr r1, w1) \<and> directory_ready r1))
       \<and> (3 \<in> set (phases_run w w') \<longrightarrow>
            (\<exists>m r1 w1 r2 w2. parse_max_phase orch = Inr m \<and> m \<ge> 3
               \<and> execute_phase1 orch w = (Inr r1, w1)
               \<and> execute_phase2 orch r1 w1 = (Inr r2, w2) \<and> strategy_ready r2))
       \<and> (4 \<in> set (phases_run w w') \<longrightarrow>
            (\<exists>m r1 w1 r2 w2 r3 w3. parse_max_phase orch = Inr m \<and> m \<ge> 4
               \<and> execute_phase1 orch w = (Inr r1, w1)
               \<and> execute_phase2 orch r1 w1 = (Inr r2, w2)
               \<and> execute_phase3 orch r2 w2 = (r3, w3) \<and> generation_ready r3
               \<and> \<not> skip_toc (config orch)))"
proof (cases "parse_max_phase orch")
  case (Inl e)
  with ex have "w' = w" by (simp add: execute_def)
  then show ?thesis by (simp add: phases_run_def)
next
  case (Inr m)
  obtain o1 w1 where p1: "execute_phase1 orch w = (o1, w1)" by force
  show ?thesis
  proof (cases o1)
    case (Inl e)
    with ex Inr p1 have "w' = w1" by (simp add: execute_def)
    moreover have "step_tracker w1 = step_tracker w @ [1]"
      using phase1_tracker [of orch w] p1 by simp
    ultimately show ?thesis by (simp add: phases_run_def)
  next
    case r1: (Inr r1)
    note p1' = p1 [unfolded r1]
    from execute_gates [OF Inr p1' ex] obtain r2 w2 r3 w3 where
      s2: "(if m \<ge> 2 \<and> directory_ready r1 then execute_phase2 orch r1 w1 else (Inr r1, w1))
            = (Inr r2, w2)"
      and s3: "(if m \<ge> 3 \<and> strategy_ready r2 then execute_phase3 orch r2 w2 else (r2, w2))
            = (r3, w3)"
      and run: "phases_run w w' =
         [1] @ (if m \<ge> 2 \<and> directory_ready r1 then [2] else [])
             @ (if m \<ge> 3 \<and> strategy_ready r2 then [3] else [])
             @ (if m \<ge> 4 \<and> generation_ready r3 \<and> \<not> skip_toc (config orch) then [4] else [])"
      by blast
    have fresh: "\<not> strategy_ready r1" "\<not> generation_ready r1"
      using phase1_fresh [OF p1'] by simp_all
    have g2: "m \<ge> 2 \<and> directory_ready r1 \<and> execute_phase2 orch r1 w1 = (Inr r2, w2)"
      if "strategy_ready r2"
      using that s2 fresh by (auto split: if_splits)
    have gen2: "generation_ready r2 = generation_ready r1"
      using s2 phase2_flags [of orch r1 w1 r2 w2] by (auto split: if_splits)
    have g3: "m \<ge> 3 \<and> strategy_ready r2 \<and> execute_phase3 orch r2 w2 = (r3, w3)"
      if "generation_ready r3"
      using that s3 gen2 fresh by (auto split: if_splits)
    have c2: "2 \<in> set (phases_run w w') \<longrightarrow> m \<ge> 2 \<and> directory_ready r1"
      by (auto simp: run split: if_splits)
    have c3: "3 \<in> set (phases_run w w') \<longrightarrow> m \<ge> 3 \<and> strategy_ready r2"
      by (auto simp: run split: if_splits)
    have c4: "4 \<in> set (phases_run w w') \<longrightarrow>
        m \<ge> 4 \<and> generation_ready r3 \<and> \<not> skip_toc (config orch)"
      by (auto simp: run split: if_splits)
    from c2 c3 c4 g2 g3 Inr p1' show ?thesis by blast
  qed
qed

text \<open>The sample run executes Phase 4, and the theorem gives the three conditions for it.\<close>

theorem phase_gating_witness:
  "4 \<in> set (phases_run sample_world (snd (execute sample_orch sample_world)))
   \<and> (\<exists>m r1 w1 r2 w2 r3 w3. parse_max_phase sample_orch = Inr m \<and> m \<ge> 4
         \<and> execute_phase1 sample_orch sample_world = (Inr r1, w1)
         \<and> execute_phase2 sample_orch r1 w1 = (Inr r2, w2)
         \<and> execute_phase3 sample_orch r2 w2 = (r3, w3) \<and> generation_ready r3
         \<and> \<not> skip_toc (config sample_orch))"
  using phase_gating [of sample_orch sample_world "fst (execute sample_orch sample_world)"
      "snd (execute sample_orch sample_world)"]
  by (simp add: sample_run)

subsection \<open>Phase selection\<close>

lemma ints_of_decimal:
  "list_all is_ascii_digit ds \<Longrightarrow> ints_of ds = Inr (map digit_val ds)"
  by (induction ds) (simp_all add: py_int_def decimal_val_def)

lemma py_max_Max:
  assumes "ns \<noteq> []"
  shows "py_max ns = Max (set ns)"
proof (cases ns)
  case Nil
  with assms show ?thesis by simp
next
  case (Cons a list)
  then show ?thesis
    using Max.set_eq_fold [of a list] by (simp add: py_max_def)
qed

text \<open>
  On a selector in which every character that \<^verbatim>\<open>isdigit\<close> accepts is a decimal digit, the
  parsed value is: \<^verbatim>\<open>MAX_PHASES\<close> for "all"; else the decimal value of a string of digits;
  else the largest digit, if there is one; else 1.
\<close>

lemma parse_max_phase_decimal:
  assumes "\<forall>c \<in> set (phases (config orch)). char_isdigit c \<longrightarrow> is_ascii_digit c"
  shows "parse_max_phase orch =
     (let s = phases (config orch) in
      if s = ''all'' then Inr (MAX_PHASES orch)
      else if s \<noteq> [] \<and> list_all is_ascii_digit s then Inr (decimal_val s)
      else if \<exists>c \<in> set s. is_ascii_digit c
        then Inr (Max (digit_val ` {c \<in> set s. is_ascii_digit c}))
      else Inr 1)"
proof -
  let ?s = "phases (config orch)"
  have eq: "list_all char_isdigit ?s = list_all is_ascii_digit ?s"
    using assms by (auto simp: list_all_iff char_isdigit_def)
  have ex: "list_ex char_isdigit ?s = (\<exists>c \<in> set ?s. is_ascii_digit c)"
    using assms by (auto simp: list_ex_iff char_isdigit_def)
  have fl: "filter char_isdigit ?s = filter is_ascii_digit ?s"
  proof (rule filter_cong)
    show "?s = ?s" by simp
  next
    fix c assume "c \<in> set ?s"
    with assms show "char_isdigit c = is_ascii_digit c"
      by (auto simp: char_isdigit_def)
  qed
  have io: "ints_of (filter is_ascii_digit ?s) = Inr (map digit_val (filter is_ascii_digit ?s))"
    by (rule ints_of_decimal) (simp add: list_all_iff)
  have mx: "(\<exists>c \<in> set ?s. is_ascii_digit c) \<Longrightarrow>
      py_max (map digit_val (filter is_ascii_digit ?s))
        = Max (digit_val ` {c \<in> set ?s. is_ascii_digit c})"
    by (subst py_max_Max) (auto simp: filter_empty_conv)
  show ?thesis
  proof (cases "?s = ''all''")
    case True
    then show ?thesis by (simp add: parse_max_phase_def)
  next
    case nall: False
    show ?thesis
    proof (cases "?s \<noteq> [] \<and> list_all is_ascii_digit ?s")
      case True
      with nall show ?thesis
        by (simp add: parse_max_phase_def Let_def str_isdigit_def eq py_int_def)
    next
      case npure: False
      show ?thesis
      proof (cases "\<exists>c \<in> set ?s. is_ascii_digit c")
        case True
        with nall npure mx show ?thesis
          by (auto simp: parse_max_phase_def Let_def str_isdigit_def eq ex fl io try_bind_def)
      next
        case False
        with nall npure show ?thesis
          by (auto simp: parse_max_phase_def Let_def str_isdigit_def eq ex)
      qed
    qed
  qed
qed

text \<open>
  C2. The claim gives every selector a parsed value. The selector that is the one character
  superscript two (U+00B2) passes \<^verbatim>\<open>isdigit\<close>, and \<^verbatim>\<open>int\<close> raises \<^verbatim>\<open>ValueError\<close> on it; so
  does the mixed selector "a" followed by superscript two, in the branch that takes the
  largest digit. The exception leaves \<^verbatim>\<open>execute\<close> before Phase 1 starts.
\<close>

theorem parse_max_phase_superscript:
  "parse_max_phase (with_phases orch [CHR 0xB2]) = Inl (ValueError [CHR 0xB2])
   \<and> parse_max_phase (with_phases orch [CHR ''a'', CHR 0xB2]) = Inl (ValueError [CHR 0xB2])
   \<and> execute (with_phases orch [CHR 0xB2]) w = (Inl (Propagated (ValueError [CHR 0xB2])), w)"
  by (simp add: execute_def parse_max_phase_def with_phases_def str_isdigit_def char_isdigit_def
        py_int_def is_ascii_digit_def try_bind_def)

subsection \<open>Normalization of the working directory\<close>

text \<open>
  C9, as the claim has it, fails: when the proposed directory begins with the prefix twice,
  the first normalization leaves one prefix, and the second strips it.
\<close>

theorem normalize_twice_counterexample:
  "normalize_working_directory ''/work/repo''
      (normalize_working_directory ''/work/repo'' ''repo/repo/docs'')
    \<noteq> normalize_working_directory ''/work/repo'' ''repo/repo/docs''"
  by (simp add: normalize_working_directory_def path_name_def path_parts_def)

text \<open>
  C9, amended. With \<open>r\<close> the name of the repository path: a directory that begins with
  \<open>r/\<close> loses exactly that one leading prefix; any other directory is unchanged; and a
  second normalization is a no-op exactly when the output of the first does not begin with
  \<open>r/\<close> itself.
\<close>

theorem normalize_strips_one_prefix:
  "(prefix (path_name rp @ ''/'') d \<longrightarrow>
       d = path_name rp @ ''/'' @ normalize_working_directory rp d)
   \<and> (\<not> prefix (path_name rp @ ''/'') d \<longrightarrow> normalize_working_directory rp d = d)
   \<and> (normalize_working_directory rp (normalize_working_directory rp d)
         = normalize_working_directory rp d
        \<longleftrightarrow> \<not> prefix (path_name rp @ ''/'') (normalize_working_directory rp d))"
  by (auto simp: normalize_working_directory_def Let_def prefix_def)

theorem normalize_strips_one_prefix_witness:
  "prefix (path_name ''/work/repo'' @ ''/'') ''repo/docs''
   \<and> ''repo/docs'' = ''repo/'' @ normalize_working_directory ''/work/repo'' ''repo/docs''
   \<and> \<not> prefix (path_name ''/work/repo'' @ ''/'') ''docs''
   \<and> normalize_working_directory ''/work/repo'' ''docs'' = ''docs''
   \<and> normalize_working_directory ''/work/repo''
        (normalize_working_directory ''/work/repo'' ''repo/docs'')
       = normalize_working_directory ''/work/repo'' ''repo/docs''"
proof -
  have name: "path_name ''/work/repo'' = ''repo''"
    by (simp add: path_name_def path_parts_def)
  have p: "prefix (path_name ''/work/repo'' @ ''/'') ''repo/docs''"
    by (simp add: name)
  have q: "\<not> prefix (path_name ''/work/repo'' @ ''/'') ''docs''"
    by (simp add: name)
  from normalize_strips_one_prefix [of "''/work/repo''" "''repo/docs''"] p
  have a: "''repo/docs'' = ''repo/'' @ normalize_working_directory ''/work/repo'' ''repo/docs''"
    by (simp add: name)
  then have out: "normalize_working_directory ''/work/repo'' ''repo/docs'' = ''docs''"
    by simp
  from normalize_strips_one_prefix [of "''/work/repo''" "''docs''"] q
  have b: "normalize_working_directory ''/work/repo'' ''docs'' = ''docs''"
    by blast
  from normalize_strips_one_prefix [of "''/work/repo''" "''repo/docs''"] q
  have c: "normalize_working_directory ''/work/repo''
        (normalize_working_directory ''/work/repo'' ''repo/docs'')
       = normalize_working_directory ''/work/repo'' ''repo/docs''"
    by (simp add: out)
  from p a q b c show ?thesis by blast
qed

subsection \<open>Applying generated content\<close>

lemma writes_create_file:
  "writes (create_file e wd w) =
     writes w @ [(target wd e, case e_content e of None \<Rightarrow> [] | Some c \<Rightarrow> c)]"
  by (simp add: create_file_def Let_def)

lemma read_create_file:
  "read_file (create_file e wd w) q =
     (if q = target wd e then Some (case e_content e of None \<Rightarrow> [] | Some c \<Rightarrow> c)
      else read_file w q)"
  by (simp add: create_file_def Let_def)

lemma writes_update_file:
  "writes (update_file e wd w) =
     writes w @ [(target wd e, case e_updated_content e of None \<Rightarrow> [] | Some c \<Rightarrow> c)]"
  by (simp add: update_file_def Let_def)

lemma read_update_file:
  "read_file (update_file e wd w) q =
     (if q = target wd e then Some (case e_updated_content e of None \<Rightarrow> [] | Some c \<Rightarrow> c)
      else read_file w q)"
  by (simp add: update_file_def Let_def)

lemma apply_create_Cons:
  "apply_create_actions (e # es) wd w =
     apply_create_actions es wd (if create_applies e then create_file e wd w else w)"
  by (simp add: create_applies_def)

lemma apply_update_Cons:
  "apply_update_actions (e # es) wd w =
     apply_update_actions es wd (if update_applies e then update_file e wd w else w)"
  by (simp add: update_applies_def)

lemma writes_apply_create:
  "writes (apply_create_actions es wd w) = writes w @ create_writes wd es"
  by (induction es arbitrary: w)
     (simp_all add: create_writes_def create_applies_def writes_create_file)

lemma writes_apply_update:
  "writes (apply_update_actions es wd w) = writes w @ update_writes wd es"
  by (induction es arbitrary: w)
     (simp_all add: update_writes_def update_applies_def writes_update_file)

lemma after_writes_Nil [simp]: "after_writes [] f = f"
  by (simp add: after_writes_def fun_eq_iff)

lemma after_writes_Cons:
  "after_writes ((p, c) # ws) f = after_writes ws (\<lambda>q. if q = p then Some c else f q)"
  by (auto simp: after_writes_def fun_eq_iff map_add_def split: option.splits)

lemma after_writes_append:
  "after_writes (ws @ vs) f = after_writes vs (after_writes ws f)"
  by (auto simp: after_writes_def fun_eq_iff map_add_def split: option.splits)

lemma after_writes_last:
  assumes "p \<notin> fst ` set vs"
  shows "after_writes (ws @ (p, c) # vs) f p = Some c"
proof -
  from assms have "map_of (rev vs) p = None"
    by (simp add: map_of_eq_None_iff)
  then show ?thesis
    by (simp add: after_writes_def map_add_def)
qed

lemma read_apply_create:
  "read_file (apply_create_actions es wd w) = after_writes (create_writes wd es) (read_file w)"
proof (induction es arbitrary: w)
  case Nil
  then show ?case by (simp add: create_writes_def)
next
  case (Cons e es)
  show ?case
  proof (cases "create_applies e")
    case True
    have "read_file (create_file e wd w) =
        (\<lambda>q. if q = target wd e then Some (case e_content e of None \<Rightarrow> [] | Some c \<Rightarrow> c)
              else read_file w q)"
      by (simp add: fun_eq_iff read_create_file)
    with True Cons.IH [of "create_file e wd w"] show ?thesis
      by (simp only: apply_create_Cons if_True) (simp add: create_writes_def after_writes_Cons)
  next
    case False
    with Cons.IH [of w] show ?thesis
      by (simp only: apply_create_Cons if_False) (simp add: create_writes_def)
  qed
qed

lemma read_apply_update:
  "read_file (apply_update_actions es wd w) = after_writes (update_writes wd es) (read_file w)"
proof (induction es arbitrary: w)
  case Nil
  then show ?case by (simp add: update_writes_def)
next
  case (Cons e es)
  show ?case
  proof (cases "update_applies e")
    case True
    have "read_file (update_file e wd w) =
        (\<lambda>q. if q = target wd e
              then Some (case e_updated_content e of None \<Rightarrow> [] | Some c \<Rightarrow> c)
              else read_file w q)"
      by (simp add: fun_eq_iff read_update_file)
    with True Cons.IH [of "update_file e wd w"] show ?thesis
      by (simp only: apply_update_Cons if_True) (simp add: update_writes_def after_writes_Cons)
  next
    case False
    with Cons.IH [of w] show ?thesis
      by (simp only: apply_update_Cons if_False) (simp add: update_writes_def)
  qed
qed

lemma read_apply_generated:
  "read_file (apply_generated_content g wd w) =
     after_writes (create_writes wd (create_results g) @ update_writes wd (update_results g))
       (read_file w)"
  by (simp add: apply_generated_content_def read_apply_update read_apply_create
        after_writes_append)


lemma sample_writes:
  "create_writes ''/work/repo/docs'' (create_results sample_generation)
     = [(''/work/repo/docs/new.md'', ''# New'')]"
  "update_writes ''/work/repo/docs'' (update_results sample_generation)
     = [(''/work/repo/docs/old.md'', ''# Old, revised'')]"
  by (simp_all add: sample_generation_def create_writes_def update_writes_def create_applies_def
        update_applies_def truthy_def target_def file_path_of_def path_simps)

lemma preview_try:
  "phase3_try (preview sample_orch) sample_result2 = Inr sample_generation"
  by (simp add: phase3_try_def generate_content_def try_bind_def preview_def sample_orch_def
        sample_collab_def)


subsection \<open>Phase 3: preview and apply\<close>

lemma writes_create_file_run:
  "create_file_run e wd w = (Some x, w') \<Longrightarrow> writes w' = writes w"
  by (auto simp: create_file_run_def Let_def split: sum.splits option.splits)

lemma writes_update_file_run:
  "update_file_run e wd w = (Some x, w') \<Longrightarrow> writes w' = writes w"
  by (auto simp: update_file_run_def split: sum.splits option.splits)

text \<open>
  The calls of \<^verbatim>\<open>write\<close> of a run, raising or not, are an initial part of the sequence of
  \<open>create_writes\<close> and \<open>update_writes\<close>.
\<close>

lemma apply_create_run_prefix:
  "apply_create_run es wd w = (r, w') \<Longrightarrow>
     \<exists>ws. prefix ws (create_writes wd es) \<and> writes w' = writes w @ ws"
proof (induction es arbitrary: w)
  case Nil
  then show ?case by (simp add: create_writes_def)
next
  case (Cons e es)
  show ?case
  proof (cases "create_applies e")
    case False
    with Cons show ?thesis by (auto simp: create_applies_def create_writes_def)
  next
    case True
    obtain r1 w1 where c: "create_file_run e wd w = (r1, w1)" by force
    show ?thesis
    proof (cases r1)
      case (Some x)
      with c have "writes w1 = writes w" by (simp add: writes_create_file_run)
      moreover from Cons.prems True c Some have "w' = w1"
        by (simp add: create_applies_def)
      ultimately show ?thesis by auto
    next
      case None
      with c have w1: "w1 = create_file e wd w" by (simp add: create_file_run_returns)
      from Cons.prems True c None have "apply_create_run es wd w1 = (r, w')"
        by (simp add: create_applies_def)
      from Cons.IH [OF this] obtain ws
        where ws: "prefix ws (create_writes wd es)" "writes w' = writes w1 @ ws" by blast
      let ?h = "(target wd e, case e_content e of None \<Rightarrow> [] | Some c \<Rightarrow> c)"
      from ws True w1 have "prefix (?h # ws) (create_writes wd (e # es))"
        "writes w' = writes w @ ?h # ws"
        by (simp_all add: create_writes_def writes_create_file)
      then show ?thesis by blast
    qed
  qed
qed

lemma apply_update_run_prefix:
  "apply_update_run es wd w = (r, w') \<Longrightarrow>
     \<exists>ws. prefix ws (update_writes wd es) \<and> writes w' = writes w @ ws"
proof (induction es arbitrary: w)
  case Nil
  then show ?case by (simp add: update_writes_def)
next
  case (Cons e es)
  show ?case
  proof (cases "update_applies e")
    case False
    with Cons show ?thesis by (auto simp: update_applies_def update_writes_def)
  next
    case True
    obtain r1 w1 where c: "update_file_run e wd w = (r1, w1)" by force
    show ?thesis
    proof (cases r1)
      case (Some x)
      with c have "writes w1 = writes w" by (simp add: writes_update_file_run)
      moreover from Cons.prems True c Some have "w' = w1"
        by (simp add: update_applies_def)
      ultimately show ?thesis by auto
    next
      case None
      with c have w1: "w1 = update_file e wd w" by (simp add: update_file_run_returns)
      from Cons.prems True c None have "apply_update_run es wd w1 = (r, w')"
        by (simp add: update_applies_def)
      from Cons.IH [OF this] obtain ws
        where ws: "prefix ws (update_writes wd es)" "writes w' = writes w1 @ ws" by blast
      let ?h = "(target wd e, case e_updated_content e of None \<Rightarrow> [] | Some c \<Rightarrow> c)"
      from ws True w1 have "prefix (?h # ws) (update_writes wd (e # es))"
        "writes w' = writes w @ ?h # ws"
        by (simp_all add: update_writes_def writes_update_file)
      then show ?thesis by blast
    qed
  qed
qed

lemma apply_generated_run_prefix:
  "\<exists>ws. prefix ws (create_writes wd (create_results g) @ update_writes wd (update_results g))
        \<and> writes (snd (apply_generated_run g wd w)) = writes w @ ws"
proof -
  obtain r w1 where c: "apply_create_run (create_results g) wd w = (r, w1)" by force
  from apply_create_run_prefix [OF c] obtain ws
    where ws: "prefix ws (create_writes wd (create_results g))" "writes w1 = writes w @ ws"
    by blast
  show ?thesis
  proof (cases r)
    case (Some x)
    with c ws show ?thesis
      by (auto simp: apply_generated_run_def intro: prefix_prefix)
  next
    case None
    with c have w1: "w1 = apply_create_actions (create_results g) wd w"
      by (simp add: apply_create_run_returns)
    obtain r2 w2 where u: "apply_update_run (update_results g) wd w1 = (r2, w2)" by force
    from apply_update_run_prefix [OF u] obtain vs
      where vs: "prefix vs (update_writes wd (update_results g))" "writes w2 = writes w1 @ vs"
      by blast
    from vs w1 have "writes w2 = writes w @ create_writes wd (create_results g) @ vs"
      by (simp add: writes_apply_create)
    with c None u vs(1) show ?thesis
      by (auto simp: apply_generated_run_def)
  qed
qed

lemma created_file_holds_content:
  assumes cr: "create_results g = pre @ e # post"
      and ok: "e_success e" "e_content e = Some c" "c \<noteq> []"
      and last: "target wd e \<notin> fst ` set (create_writes wd post @ update_writes wd (update_results g))"
  shows "read_file (apply_generated_content g wd w) (target wd e) = Some c"
proof -
  have ap: "create_applies e"
    using ok by (simp add: create_applies_def truthy_def)
  have "create_writes wd (create_results g) @ update_writes wd (update_results g)
      = create_writes wd pre @ (target wd e, c)
          # (create_writes wd post @ update_writes wd (update_results g))"
    using ap ok by (simp add: cr create_writes_def)
  with after_writes_last [OF last] show ?thesis
    by (simp add: read_apply_generated)
qed

text \<open>The directory that \<^verbatim>\<open>mkdir\<close> made for a created file is there after the apply step.\<close>

lemma is_dir_create_file: "is_dir (fs (create_file e wd w)) (path_parent (target wd e))"
  by (simp add: create_file_def Let_def is_dir_mkdir)

lemma is_dir_create_file_mono: "is_dir (fs w) d \<Longrightarrow> is_dir (fs (create_file e wd w)) d"
  by (simp add: create_file_def Let_def is_dir_mkdir_mono)

lemma is_dir_update_file [simp]: "is_dir (fs (update_file e wd w)) d = is_dir (fs w) d"
  by (simp add: update_file_def Let_def)

lemma is_dir_apply_create_mono:
  "is_dir (fs w) d \<Longrightarrow> is_dir (fs (apply_create_actions es wd w)) d"
  by (induction es arbitrary: w) (simp_all add: is_dir_create_file_mono)

lemma is_dir_apply_update [simp]:
  "is_dir (fs (apply_update_actions es wd w)) d = is_dir (fs w) d"
  by (induction es arbitrary: w) simp_all

lemma apply_create_append:
  "apply_create_actions (xs @ ys) wd w = apply_create_actions ys wd (apply_create_actions xs wd w)"
  by (induction xs arbitrary: w) simp_all

lemma created_parent_is_dir:
  assumes cr: "create_results g = pre @ e # post"
      and ok: "e_success e" "e_content e = Some c" "c \<noteq> []"
  shows "is_dir (fs (apply_generated_content g wd w)) (path_parent (target wd e))"
proof -
  have "is_dir (fs (create_file e wd (apply_create_actions pre wd w)))
          (path_parent (target wd e))"
    by (rule is_dir_create_file)
  then have "is_dir (fs (apply_create_actions post wd
               (create_file e wd (apply_create_actions pre wd w)))) (path_parent (target wd e))"
    by (rule is_dir_apply_create_mono)
  with ok show ?thesis
    by (simp add: apply_generated_content_def cr apply_create_append truthy_def)
qed

lemma target_named:
  assumes "e_action e = Present a" "filename a = Present f"
  shows "target wd e = path_div wd f"
  using assms by (simp add: target_def file_path_of_def)

lemma with_generator_try:
  "phase3_try (with_generator sample_orch x) sample_result2 = x"
  "phase3_try (preview (with_generator sample_orch x)) sample_result2 = x"
  by (simp_all add: phase3_try_def generate_content_def try_bind_def with_generator_def
        preview_def sample_orch_def sample_collab_def)

lemma with_generator_flags:
  "apply_changes (config (with_generator sample_orch x))"
  "\<not> apply_changes (config (preview orch))"
  by (simp_all add: with_generator_def preview_def sample_orch_def sample_config_def)

lemma clash_writes:
  "create_writes ''/work/repo/docs'' (create_results clash_generation) =
     [(''/work/repo/docs/twice.md'', ''first''), (''/work/repo/docs/twice.md'', ''second'')]"
  "update_writes ''/work/repo/docs'' (update_results clash_generation) = []"
  by (simp_all add: clash_generation_def create_writes_def update_writes_def create_applies_def
        truthy_def target_def file_path_of_def path_simps)

lemma clash_run:
  "fst (apply_generated_run clash_generation ''/work/repo/docs'' (reset_phase 3 sample_world))
     = None"
  by (simp add: apply_generated_run_def create_file_run_def file_path_of_def write_error_def
        is_dir_def utils_mkdir_def utils_write_def clash_generation_def truthy_def path_simps
        sample_world_def reset_phase_def)

lemma outside_run:
  "fst (apply_generated_run outside_generation ''/work/repo/docs'' (reset_phase 3 sample_world))
     = None"
  by (simp add: apply_generated_run_def create_file_run_def file_path_of_def write_error_def
        is_dir_def utils_mkdir_def utils_write_def outside_generation_def truthy_def path_simps
        sample_world_def reset_phase_def)

lemma outside_writes:
  "create_writes ''/work/repo/docs'' (create_results outside_generation) =
     [(''/work/other/x.md'', ''# New'')]"
  "update_writes ''/work/repo/docs'' (update_results outside_generation) = []"
  by (simp_all add: outside_generation_def create_writes_def update_writes_def create_applies_def
        truthy_def target_def file_path_of_def path_simps)

lemma nameless_run:
  "apply_generated_run nameless_generation ''/work/repo/docs'' (reset_phase 3 sample_world)
     = (Some (IsADirectoryError ''/work/repo/docs''),
        utils_mkdir ''/work/repo'' (reset_phase 3 sample_world))"
  by (simp add: apply_generated_run_def create_file_run_def file_path_of_def write_error_def
        is_dir_def utils_mkdir_def nameless_generation_def truthy_def path_simps
        sample_world_def reset_phase_def)



lemma sample_run3:
  "fst (apply_generated_run sample_generation (working_directory_full_path sample_result2)
          (reset_phase 3 sample_world)) = None"
  by (simp add: sample_paths sample_apply_run sample_dirs)

lemma nameless_run3:
  "fst (apply_generated_run nameless_generation (working_directory_full_path sample_result2)
          (reset_phase 3 sample_world)) = Some (IsADirectoryError ''/work/repo/docs'')"
  by (simp add: sample_paths nameless_run)

lemma sample_new_file:
  "clean_name ''new.md''"
  "path_div ''/work/repo/docs'' ''new.md'' = ''/work/repo/docs/new.md''"
  "path_parent ''/work/repo/docs/new.md'' = ''/work/repo/docs''"
  "not_written_by ''/work/repo/docs/new.md'' [(''/work/repo/docs/old.md'', ''# Old, revised'')]"
  by (simp_all add: clean_name_def not_written_by_def dotdot_free_def path_simps)


subsection \<open>Phase 1 in headless mode\<close>

lemma phase1_after_detection:
  assumes cl: "clone_or_update (collab orch) (repo_url (config orch)) (work_dir (config orch))
                 (fs w) = (Inr rp, f1)"
      and mp: "material_process (collab orch) (support_materials (config orch)) rp = Inr ms"
      and gs: "get_structure (collab orch) rp (max_repo_depth (config orch)) = Inr st"
  shows "fst (execute_phase1 orch w) =
     (case detect_directory orch rp st ms of
        (llm_result, llm_failed, err) \<Rightarrow>
          (case (if auto_confirm (config orch) then auto_confirm_check llm_result llm_failed err
                 else None) of
             Some e \<Rightarrow> Inl e
           | None \<Rightarrow>
               propagate (dir_confirm (collab orch) llm_result st llm_failed err)
                 (finish_phase1 orch f1 rp ms)))"
  unfolding execute_phase1_def Let_def fs_reset cl
  by (simp add: mp gs propagate_def)

lemma finish_no_runtime_error:
  "propagate r (finish_phase1 orch f rp ms) \<noteq> Inl (RuntimeError x)"
  by (auto simp: propagate_def finish_phase1_def Let_def create_phase1_result_def
           split: sum.splits slot.splits option.splits if_splits)

lemma finish_complete:
  assumes "d_working_directory cf = Present wd" "d_justification cf \<noteq> Absent"
      and "d_confidence cf = Present c"
  shows "\<exists>r. finish_phase1 orch f rp ms cf = Inr r \<and> working_directory r = wd
             \<and> r_confidence r = Some c
             \<and> directory_ready r = s_success (setup_directory f rp wd)"
  using assms
  by (simp add: finish_phase1_def Let_def summary_error_def create_phase1_result_def
        propagate_def stored_def)

lemma check_runtime_error:
  assumes "auto_confirm_check (Some d) False err = Some (RuntimeError x)"
  shows "\<not> slot_truthy (d_working_directory d) \<or> d_confidence d = Absent
         \<or> (\<exists>c. d_confidence d = Present c \<and> c < 0.7)"
  using assms
  by (auto simp: auto_confirm_check_def split: if_splits slot.splits)



lemma with_detector_simps [simp]:
  "config (with_detector orch x) = config orch"
  "console_display (with_detector orch x) = console_display orch"
  "detector_process (collab (with_detector orch x)) = (\<lambda>p s ms. x)"
  "clone_or_update (collab (with_detector orch x)) = clone_or_update (collab orch)"
  "material_process (collab (with_detector orch x)) = material_process (collab orch)"
  "get_structure (collab (with_detector orch x)) = get_structure (collab orch)"
  "dir_confirm (collab (with_detector orch x)) = dir_confirm (collab orch)"
  by (simp_all add: with_detector_def)

lemma sample_collab_phase1:
  "clone_or_update (collab sample_orch) (repo_url (config sample_orch))
     (work_dir (config sample_orch)) (fs sample_world)
     = (Inr ''/work/repo'', fs sample_world)"
  "material_process (collab sample_orch) (support_materials (config sample_orch)) ''/work/repo''
     = Inr [''a summary'']"
  "get_structure (collab sample_orch) ''/work/repo'' (max_repo_depth (config sample_orch))
     = Inr ''docs/''"
  "detector_process (collab sample_orch) ''/work/repo'' ''docs/'' [''a summary'']
     = Inr sample_selection"
  "dir_confirm (collab sample_orch) (Some d) st failed err = Inr d"
  by (simp_all add: sample_orch_def sample_collab_def)

lemma sample_selection_ok:
  "slot_truthy (d_working_directory sample_selection)"
  "d_working_directory sample_selection = Present ''docs''"
  "d_justification sample_selection \<noteq> Absent"
  "d_confidence sample_selection = Present 0.7"
  "d_error sample_selection = Absent"
  by (simp_all add: sample_selection_def slot_truthy_def)


subsection \<open>Phase 2: acceptance and failure\<close>

lemma phase2_ok:
  assumes "phase2_try orch result = Inr s"
  shows "execute_phase2 orch result w =
     (Inr (result\<lparr>content_strategy := Some s, strategy_ready := (confidence s > 0)\<rparr>),
      reset_phase 2 w)"
  using assms by (simp add: execute_phase2_def)

lemma phase2_raised:
  assumes "phase2_try orch result = Inl e"
  shows "execute_phase2 orch result w =
     (Inr (result\<lparr>content_strategy := Some (failure_strategy (exn_str e)),
                 strategy_ready := False\<rparr>),
      reset_phase 2 w)"
  using assms
  by (simp add: execute_phase2_def handle_phase2_error_def strategy_confirm_def try_bind_def)

text \<open>
  A strategy that the confirmation returns with confidence 0, for the instances below.
\<close>

lemma phase2_try_returns:
  assumes "extract_name (collab orch) (repo_url (config orch)) = Inr name"
      and "discovery_process (collab orch) (working_directory_full_path result) name
             (working_directory result) = Inr chunks"
      and "strategy_process (collab orch) chunks (material_summaries result) (config orch) name
             (working_directory result) = Inr st"
      and "strategy_answer (collab orch) st = Inr s"
  shows "phase2_try orch result = Inr s"
  using assms
  by (simp add: phase2_try_def Let_def discover_content_def generate_strategy_def
        strategy_confirm_def try_bind_def)

text \<open>
  C3. The flag follows the confidence of the strategy that the run of Phase 2 obtained.
  When discovery, strategy generation and confirmation return, and the confirmation returns
  the strategy \<open>s\<close>, Phase 2 stores \<open>s\<close> and sets \<open>strategy_ready\<close> to the truth value of
  \<open>confidence s > 0\<close>: \<open>True\<close> for a confidence above 0, \<open>False\<close> for a confidence of
  exactly 0 (and for one below 0). When one of the three raises \<open>e\<close>, Phase 2 stores the
  substituted strategy and sets \<open>strategy_ready\<close> to \<open>False\<close>; the confidence of the
  substituted strategy is 0, so in both cases the flag is \<open>True\<close> if and only if the
  confidence of the stored strategy is above 0. (The substituted strategy is the failure
  strategy of the spec.)
\<close>

theorem strategy_ready_iff_confidence:
  "(extract_name (collab orch) (repo_url (config orch)) = Inr name
      \<and> discovery_process (collab orch) (working_directory_full_path result) name
            (working_directory result) = Inr chunks
      \<and> strategy_process (collab orch) chunks (material_summaries result) (config orch) name
            (working_directory result) = Inr st
      \<and> strategy_answer (collab orch) st = Inr s
      \<longrightarrow> phase2_try orch result = Inr s)
   \<and> (phase2_try orch result = Inr s \<longrightarrow>
         execute_phase2 orch result w =
           (Inr (result\<lparr>content_strategy := Some s, strategy_ready := (confidence s > 0)\<rparr>),
            reset_phase 2 w))
   \<and> (phase2_try orch result = Inr s \<and> confidence s = 0 \<longrightarrow>
         execute_phase2 orch result w =
           (Inr (result\<lparr>content_strategy := Some s, strategy_ready := False\<rparr>), reset_phase 2 w))
   \<and> (phase2_try orch result = Inl e \<longrightarrow>
         execute_phase2 orch result w =
           (Inr (result\<lparr>content_strategy := Some (failure_strategy (exn_str e)),
                       strategy_ready := False\<rparr>), reset_phase 2 w)
         \<and> confidence (failure_strategy (exn_str e)) = 0)
   \<and> (\<exists>r s'. execute_phase2 orch result w = (Inr r, reset_phase 2 w)
         \<and> content_strategy r = Some s'
         \<and> (strategy_ready r \<longleftrightarrow> confidence s' > 0))"
proof -
  have a: "phase2_try orch result = Inr s"
    if "extract_name (collab orch) (repo_url (config orch)) = Inr name"
       "discovery_process (collab orch) (working_directory_full_path result) name
            (working_directory result) = Inr chunks"
       "strategy_process (collab orch) chunks (material_summaries result) (config orch) name
            (working_directory result) = Inr st"
       "strategy_answer (collab orch) st = Inr s"
    using that by (rule phase2_try_returns)
  have b: "execute_phase2 orch result w =
           (Inr (result\<lparr>content_strategy := Some s, strategy_ready := (confidence s > 0)\<rparr>),
            reset_phase 2 w)"
    if "phase2_try orch result = Inr s"
    using that by (rule phase2_ok)
  have c: "execute_phase2 orch result w =
           (Inr (result\<lparr>content_strategy := Some s, strategy_ready := False\<rparr>), reset_phase 2 w)"
    if "phase2_try orch result = Inr s" "confidence s = 0"
    using that by (simp add: phase2_ok)
  have d: "execute_phase2 orch result w =
           (Inr (result\<lparr>content_strategy := Some (failure_strategy (exn_str e)),
                       strategy_ready := False\<rparr>), reset_phase 2 w)
         \<and> confidence (failure_strategy (exn_str e)) = 0"
    if "phase2_try orch result = Inl e"
    using that by (simp add: phase2_raised failure_strategy_def)
  have e: "\<exists>r s'. execute_phase2 orch result w = (Inr r, reset_phase 2 w)
         \<and> content_strategy r = Some s'
         \<and> (strategy_ready r \<longleftrightarrow> confidence s' > 0)"
  proof (cases "phase2_try orch result")
    case (Inl x)
    from phase2_raised [OF this, of w] show ?thesis
      by (simp add: failure_strategy_def)
  next
    case (Inr x)
    from phase2_ok [OF this, of w] show ?thesis
      by simp
  qed
  from a b c d e show ?thesis by blast
qed

lemma raising_phase2_try:
  "phase2_try (with_strategy sample_orch (Inl connection_error)) sample_result1
     = Inl connection_error"
  by (simp add: phase2_try_def discover_content_def generate_strategy_def try_bind_def
        with_strategy_def sample_orch_def sample_collab_def)

lemma with_strategy_collab:
  "extract_name (collab (with_strategy sample_orch x)) u = Inr ''repo''"
  "discovery_process (collab (with_strategy sample_orch x)) p n d = Inr [''a chunk'']"
  "strategy_process (collab (with_strategy sample_orch x)) ch ms cfg n d = x"
  "strategy_answer (collab (with_strategy sample_orch x)) st = Inr st"
  by (simp_all add: with_strategy_def sample_orch_def sample_collab_def)

text \<open>
  Three runs of Phase 2 after Phase 1 of the sample run: the strategy processor returns the
  sample strategy, of confidence 0.9, and \<open>strategy_ready\<close> is \<open>True\<close>; it returns the same
  strategy with confidence 0, and \<open>strategy_ready\<close> is \<open>False\<close>; it raises, and
  \<open>strategy_ready\<close> is \<open>False\<close>.
\<close>

theorem strategy_ready_iff_confidence_witness:
  "phase2_try (with_strategy sample_orch (Inr sample_strategy)) sample_result1
      = Inr sample_strategy
   \<and> confidence sample_strategy > 0
   \<and> execute_phase2 (with_strategy sample_orch (Inr sample_strategy)) sample_result1 sample_world
      = (Inr (sample_result1\<lparr>content_strategy := Some sample_strategy, strategy_ready := True\<rparr>),
         reset_phase 2 sample_world)
   \<and> phase2_try (with_strategy sample_orch (Inr (sample_strategy\<lparr>confidence := 0\<rparr>)))
        sample_result1 = Inr (sample_strategy\<lparr>confidence := 0\<rparr>)
   \<and> execute_phase2 (with_strategy sample_orch (Inr (sample_strategy\<lparr>confidence := 0\<rparr>)))
        sample_result1 sample_world
      = (Inr (sample_result1\<lparr>content_strategy := Some (sample_strategy\<lparr>confidence := 0\<rparr>),
                            strategy_ready := False\<rparr>),
         reset_phase 2 sample_world)
   \<and> phase2_try (with_strategy sample_orch (Inl connection_error)) sample_result1
      = Inl connection_error
   \<and> execute_phase2 (with_strategy sample_orch (Inl connection_error)) sample_result1
        sample_world
      = (Inr (sample_result1\<lparr>content_strategy := Some (failure_strategy ''connection refused''),
                            strategy_ready := False\<rparr>),
         reset_phase 2 sample_world)"
proof -
  have pos: "confidence sample_strategy > 0"
    by (simp add: sample_strategy_def)
  have t1: "phase2_try (with_strategy sample_orch (Inr sample_strategy)) sample_result1
        = Inr sample_strategy"
    using strategy_ready_iff_confidence
      [of "with_strategy sample_orch (Inr sample_strategy)" "''repo''" sample_result1
          "[''a chunk'']" sample_strategy sample_strategy]
    by (simp add: with_strategy_collab)
  have r1: "execute_phase2 (with_strategy sample_orch (Inr sample_strategy)) sample_result1
        sample_world
      = (Inr (sample_result1\<lparr>content_strategy := Some sample_strategy, strategy_ready := True\<rparr>),
         reset_phase 2 sample_world)"
    using strategy_ready_iff_confidence
      [of "with_strategy sample_orch (Inr sample_strategy)" _ sample_result1 _ _
          sample_strategy sample_world] t1 pos
    by simp
  have t2: "phase2_try (with_strategy sample_orch (Inr (sample_strategy\<lparr>confidence := 0\<rparr>)))
        sample_result1 = Inr (sample_strategy\<lparr>confidence := 0\<rparr>)"
    using strategy_ready_iff_confidence
      [of "with_strategy sample_orch (Inr (sample_strategy\<lparr>confidence := 0\<rparr>))" "''repo''"
          sample_result1 "[''a chunk'']" "sample_strategy\<lparr>confidence := 0\<rparr>"
          "sample_strategy\<lparr>confidence := 0\<rparr>"]
    by (simp add: with_strategy_collab)
  have r2: "execute_phase2 (with_strategy sample_orch (Inr (sample_strategy\<lparr>confidence := 0\<rparr>)))
        sample_result1 sample_world
      = (Inr (sample_result1\<lparr>content_strategy := Some (sample_strategy\<lparr>confidence := 0\<rparr>),
                            strategy_ready := False\<rparr>),
         reset_phase 2 sample_world)"
    using strategy_ready_iff_confidence
      [of "with_strategy sample_orch (Inr (sample_strategy\<lparr>confidence := 0\<rparr>))" _ sample_result1
          _ _ "sample_strategy\<lparr>confidence := 0\<rparr>" sample_world] t2
    by simp
  have str: "exn_str connection_error = ''connection refused''"
    by (simp add: connection_error_def)
  have r3: "execute_phase2 (with_strategy sample_orch (Inl connection_error)) sample_result1
        sample_world
      = (Inr (sample_result1\<lparr>content_strategy := Some (failure_strategy ''connection refused''),
                            strategy_ready := False\<rparr>),
         reset_phase 2 sample_world)"
    using strategy_ready_iff_confidence
      [of "with_strategy sample_orch (Inl connection_error)" _ sample_result1 _ _ _
          sample_world connection_error] raising_phase2_try
    by (simp add: str)
  from pos t1 r1 t2 r2 raising_phase2_try r3 show ?thesis by blast
qed

text \<open>
  C6. When discovery, strategy generation or confirmation raises \<open>e\<close>, Phase 2 returns: the
  result holds the failure strategy for \<open>e\<close>, whose confidence is 0 and which carries the
  message of \<open>e\<close>, and \<open>strategy_ready\<close> is \<open>False\<close>. In a run that reached Phase 2 this way,
  \<open>execute\<close> returns that result, and the phases executed are 1 and 2 only.
\<close>

theorem phase2_exception_contained:
  assumes exc: "phase2_try orch result = Inl e"
  shows "execute_phase2 orch result w =
           (Inr (result\<lparr>content_strategy := Some (failure_strategy (exn_str e)),
                       strategy_ready := False\<rparr>), reset_phase 2 w)
       \<and> confidence (failure_strategy (exn_str e)) = 0
       \<and> strategy_error (failure_strategy (exn_str e)) = Some (exn_str e)
       \<and> (parse_max_phase orch = Inr m \<and> m \<ge> 2
             \<and> execute_phase1 orch w0 = (Inr result, w) \<and> directory_ready result
            \<longrightarrow> execute orch w0 =
                  (Inr (result\<lparr>content_strategy := Some (failure_strategy (exn_str e)),
                              strategy_ready := False\<rparr>), reset_phase 2 w)
                \<and> phases_run w0 (reset_phase 2 w) = [1, 2])"
proof -
  let ?r = "result\<lparr>content_strategy := Some (failure_strategy (exn_str e)),
                    strategy_ready := False\<rparr>"
  have p2: "execute_phase2 orch result w = (Inr ?r, reset_phase 2 w)"
    by (rule phase2_raised [OF exc])
  have run: "execute orch w0 = (Inr ?r, reset_phase 2 w) \<and> phases_run w0 (reset_phase 2 w) = [1, 2]"
    if pm: "parse_max_phase orch = Inr m" and m: "m \<ge> 2"
      and p1: "execute_phase1 orch w0 = (Inr result, w)" and dr: "directory_ready result"
  proof -
    have g: "\<not> generation_ready ?r"
      using phase1_fresh [OF p1] by simp
    have e: "execute orch w0 = (Inr ?r, reset_phase 2 w)"
      using m dr g by (simp add: execute_def pm p1 p2)
    have "step_tracker w = step_tracker w0 @ [1]"
      using phase1_tracker [of orch w0] p1 by simp
    then have "step_tracker (reset_phase 2 w) = step_tracker w0 @ [1, 2]"
      by simp
    from e phases_run_append [OF this] show ?thesis by simp
  qed
  from p2 run show ?thesis
    by (simp add: failure_strategy_def)
qed

lemma raising_parse:
  "parse_max_phase (with_strategy sample_orch x) = Inr 4"
  by (simp add: parse_max_phase_def with_strategy_def sample_orch_def sample_config_def)

lemma raising_phase1:
  "execute_phase1 (with_strategy sample_orch x) sample_world
     = (Inr sample_result1, reset_phase 1 sample_world)"
  by (simp add: execute_phase1_def finish_phase1_def propagate_def detect_directory_def
        auto_confirm_check_def slot_truthy_def stored_def create_phase1_result_def
        sample_setup [simplified sample_world_def, simplified]
        with_strategy_def sample_orch_def sample_config_def sample_collab_def
        sample_selection_def sample_result1_def reset_phase_def sample_world_def)

text \<open>
  The sample run with a strategy processor that raises \<^verbatim>\<open>ConnectionError\<close>.
\<close>

theorem phase2_exception_contained_witness:
  "phase2_try (with_strategy sample_orch (Inl connection_error)) sample_result1
      = Inl connection_error
   \<and> execute (with_strategy sample_orch (Inl connection_error)) sample_world =
       (Inr (sample_result1\<lparr>content_strategy := Some (failure_strategy ''connection refused''),
                           strategy_ready := False\<rparr>),
        reset_phase 2 (reset_phase 1 sample_world))
   \<and> phases_run sample_world (reset_phase 2 (reset_phase 1 sample_world)) = [1, 2]
   \<and> confidence (failure_strategy ''connection refused'') = 0"
proof -
  have str: "exn_str connection_error = ''connection refused''"
    by (simp add: connection_error_def)
  from phase2_exception_contained [OF raising_phase2_try, of "reset_phase 1 sample_world" 4
      sample_world]
    raising_parse [of "Inl connection_error"] raising_phase1 [of "Inl connection_error"]
    sample_ready(1) raising_phase2_try
  show ?thesis
    unfolding str by simp
qed

subsection \<open>Phase 4: readiness and the manifest\<close>

lemma phase4_returned:
  assumes "phase4_try orch result = Inr toc"
  shows "execute_phase4 orch result w =
     (if apply_changes (config orch) \<and> t_success toc \<and> t_changes_made toc
      then (result\<lparr>toc_results := Some (toc\<lparr>t_applied := Some True\<rparr>), toc_ready := True\<rparr>,
            apply_toc_changes toc (working_directory_full_path result) (reset_phase 4 w))
      else (result\<lparr>toc_results := Some (toc\<lparr>t_applied := Some False\<rparr>), toc_ready := True\<rparr>,
            reset_phase 4 w))"
  using assms by (auto simp: execute_phase4_def Let_def)

lemma phase4_raised:
  assumes "phase4_try orch result = Inl e"
  shows "execute_phase4 orch result w =
     (result\<lparr>toc_results := None, toc_ready := False\<rparr>, reset_phase 4 w)"
  using assms by (simp add: execute_phase4_def handle_phase4_error_def)

lemma failed_toc_try:
  "phase4_try (with_toc sample_orch x) sample_result3 = x"
  by (simp add: phase4_try_def run_toc_phase_def with_toc_def sample_orch_def sample_result3_def)

lemma with_toc_config [simp]: "config (with_toc orch x) = config orch"
  by (simp add: with_toc_def)

lemma failed_toc_run:
  "execute_phase4 (with_toc sample_orch (Inr failed_toc)) sample_result3 sample_world =
     (sample_result3\<lparr>toc_results := Some (failed_toc\<lparr>t_applied := Some False\<rparr>),
                     toc_ready := True\<rparr>, reset_phase 4 sample_world)"
  by (simp add: phase4_returned [OF failed_toc_try] failed_toc_def)

text \<open>
  C10. Whenever the TOC processor returns, Phase 4 sets \<open>toc_ready\<close>, whatever the
  returned \<open>success\<close> is; when \<open>success\<close> is \<open>False\<close> the results are annotated
  \<open>applied = False\<close>. When the processor raises, \<open>toc_ready\<close> is \<open>False\<close> and the results are
  \<^verbatim>\<open>None\<close>. There are runs that end with \<open>toc_ready = True\<close>, \<open>success = False\<close> and
  \<open>applied = False\<close>.
\<close>

theorem toc_ready_after_return:
  "(phase4_try orch result = Inr toc \<longrightarrow>
       toc_ready (fst (execute_phase4 orch result w))
       \<and> (\<exists>t. toc_results (fst (execute_phase4 orch result w)) = Some t
               \<and> t_success t = t_success toc
               \<and> (\<not> t_success toc \<longrightarrow> t_applied t = Some False)))
   \<and> (phase4_try orch result = Inl e \<longrightarrow>
       \<not> toc_ready (fst (execute_phase4 orch result w))
       \<and> toc_results (fst (execute_phase4 orch result w)) = None)
   \<and> (\<exists>orch' result' w' t. toc_ready (fst (execute_phase4 orch' result' w'))
         \<and> toc_results (fst (execute_phase4 orch' result' w')) = Some t
         \<and> \<not> t_success t \<and> t_applied t = Some False)"
proof -
  have a: "toc_ready (fst (execute_phase4 orch result w))
       \<and> (\<exists>t. toc_results (fst (execute_phase4 orch result w)) = Some t
               \<and> t_success t = t_success toc
               \<and> (\<not> t_success toc \<longrightarrow> t_applied t = Some False))"
    if "phase4_try orch result = Inr toc"
    by (simp add: phase4_returned [OF that])
  have b: "\<not> toc_ready (fst (execute_phase4 orch result w))
       \<and> toc_results (fst (execute_phase4 orch result w)) = None"
    if "phase4_try orch result = Inl e"
    by (simp add: phase4_raised [OF that])
  have "toc_ready (fst (execute_phase4 (with_toc sample_orch (Inr failed_toc)) sample_result3
            sample_world))
      \<and> toc_results (fst (execute_phase4 (with_toc sample_orch (Inr failed_toc)) sample_result3
            sample_world)) = Some (failed_toc\<lparr>t_applied := Some False\<rparr>)
      \<and> \<not> t_success (failed_toc\<lparr>t_applied := Some False\<rparr>)
      \<and> t_applied (failed_toc\<lparr>t_applied := Some False\<rparr>) = Some False"
    by (simp add: failed_toc_run) (simp add: failed_toc_def)
  then have c: "\<exists>orch' result' w' t. toc_ready (fst (execute_phase4 orch' result' w'))
         \<and> toc_results (fst (execute_phase4 orch' result' w')) = Some t
         \<and> \<not> t_success t \<and> t_applied t = Some False"
    by blast
  from a b c show ?thesis by blast
qed

text \<open>
  The sample run with TOC results that report failure, and with a processor that raises.
\<close>

theorem toc_ready_after_return_witness:
  "phase4_try (with_toc sample_orch (Inr failed_toc)) sample_result3 = Inr failed_toc
   \<and> \<not> t_success failed_toc
   \<and> toc_ready (fst (execute_phase4 (with_toc sample_orch (Inr failed_toc)) sample_result3
        sample_world))
   \<and> (\<exists>t. toc_results (fst (execute_phase4 (with_toc sample_orch (Inr failed_toc))
              sample_result3 sample_world)) = Some t
         \<and> \<not> t_success t \<and> t_applied t = Some False)
   \<and> phase4_try (with_toc sample_orch (Inl connection_error)) sample_result3
        = Inl connection_error
   \<and> \<not> toc_ready (fst (execute_phase4 (with_toc sample_orch (Inl connection_error))
        sample_result3 sample_world))"
proof -
  have f: "\<not> t_success failed_toc" by (simp add: failed_toc_def)
  from toc_ready_after_return [of "with_toc sample_orch (Inr failed_toc)" sample_result3
      failed_toc sample_world] failed_toc_try [of "Inr failed_toc"] f
  have a: "toc_ready (fst (execute_phase4 (with_toc sample_orch (Inr failed_toc)) sample_result3
        sample_world))
   \<and> (\<exists>t. toc_results (fst (execute_phase4 (with_toc sample_orch (Inr failed_toc))
              sample_result3 sample_world)) = Some t
         \<and> \<not> t_success t \<and> t_applied t = Some False)"
    by auto
  from toc_ready_after_return [of "with_toc sample_orch (Inl connection_error)" sample_result3
      _ sample_world connection_error] failed_toc_try [of "Inl connection_error"]
  have b: "\<not> toc_ready (fst (execute_phase4 (with_toc sample_orch (Inl connection_error))
        sample_result3 sample_world))"
    by blast
  from a b f failed_toc_try [of "Inr failed_toc"] failed_toc_try [of "Inl connection_error"]
  show ?thesis by blast
qed

lemma apply_toc_written:
  assumes "t_content toc = Some c" "c \<noteq> []"
  shows "apply_toc_changes toc wd w = utils_write (path_div wd ''TOC.yml'') c w"
  using assms by (simp add: apply_toc_changes_def)

lemma apply_toc_skipped:
  assumes "\<not> truthy (t_content toc)"
  shows "apply_toc_changes toc wd w = w"
  using assms by (auto simp: apply_toc_changes_def truthy_def split: option.splits)

text \<open>
  C5, as the claim has it, fails: with apply mode, \<open>success\<close> and \<open>changes_made\<close>, but
  without content in the TOC results, the manifest is not written (no call of \<^verbatim>\<open>write\<close>,
  no file TOC.yml), while the results are annotated \<open>applied = True\<close>. And when the
  processor raises, the results are \<^verbatim>\<open>None\<close>, with no annotation.
\<close>

theorem toc_apply_counterexample:
  "apply_changes (config (with_toc sample_orch (Inr contentless_toc)))
   \<and> t_success contentless_toc \<and> t_changes_made contentless_toc
   \<and> toc_results (fst (execute_phase4 (with_toc sample_orch (Inr contentless_toc))
        sample_result3 sample_world)) = Some (contentless_toc\<lparr>t_applied := Some True\<rparr>)
   \<and> writes (snd (execute_phase4 (with_toc sample_orch (Inr contentless_toc))
        sample_result3 sample_world)) = []
   \<and> read_file (snd (execute_phase4 (with_toc sample_orch (Inr contentless_toc))
        sample_result3 sample_world)) ''/work/repo/docs/TOC.yml'' = None
   \<and> toc_results (fst (execute_phase4 (with_toc sample_orch (Inl connection_error))
        sample_result3 sample_world)) = None"
proof -
  have t: "t_success contentless_toc" "t_changes_made contentless_toc"
      "\<not> truthy (t_content contentless_toc)"
    by (simp_all add: contentless_toc_def sample_toc_def truthy_def)
  have w: "writes sample_world = []"
      "read_file sample_world ''/work/repo/docs/TOC.yml'' = None"
    by (simp_all add: sample_world_def read_file_def)
  show ?thesis
    using t w
    by (simp add: phase4_returned [OF failed_toc_try] phase4_raised [OF failed_toc_try]
          sample_flags apply_toc_skipped)
qed

text \<open>
  C5, amended. For a run of Phase 4 in which the processor returns: if apply mode is
  enabled and \<open>success\<close> and \<open>changes_made\<close> hold and the content is not empty, the results
  are annotated \<open>applied = True\<close> and the one write replaces TOC.yml under the working
  directory by the content; if one of the three conditions fails, the results are annotated
  \<open>applied = False\<close> and nothing is written; if the content is empty or absent, nothing is
  written. When the processor raises, nothing is written and the results are \<^verbatim>\<open>None\<close>.
\<close>

theorem toc_apply_semantics:
  "(phase4_try orch result = Inr toc \<and> apply_changes (config orch) \<and> t_success toc
      \<and> t_changes_made toc \<and> t_content toc = Some c \<and> c \<noteq> [] \<longrightarrow>
       toc_results (fst (execute_phase4 orch result w)) = Some (toc\<lparr>t_applied := Some True\<rparr>)
       \<and> writes (snd (execute_phase4 orch result w))
           = writes w @ [(path_div (working_directory_full_path result) ''TOC.yml'', c)]
       \<and> read_file (snd (execute_phase4 orch result w))
           (path_div (working_directory_full_path result) ''TOC.yml'') = Some c)
   \<and> (phase4_try orch result = Inr toc
      \<and> \<not> (apply_changes (config orch) \<and> t_success toc \<and> t_changes_made toc) \<longrightarrow>
       toc_results (fst (execute_phase4 orch result w)) = Some (toc\<lparr>t_applied := Some False\<rparr>)
       \<and> snd (execute_phase4 orch result w) = reset_phase 4 w)
   \<and> (phase4_try orch result = Inr toc \<and> \<not> truthy (t_content toc) \<longrightarrow>
       snd (execute_phase4 orch result w) = reset_phase 4 w)
   \<and> (phase4_try orch result = Inl e \<longrightarrow>
       execute_phase4 orch result w
         = (result\<lparr>toc_results := None, toc_ready := False\<rparr>, reset_phase 4 w))"
proof -
  have a: "toc_results (fst (execute_phase4 orch result w)) = Some (toc\<lparr>t_applied := Some True\<rparr>)
       \<and> writes (snd (execute_phase4 orch result w))
           = writes w @ [(path_div (working_directory_full_path result) ''TOC.yml'', c)]
       \<and> read_file (snd (execute_phase4 orch result w))
           (path_div (working_directory_full_path result) ''TOC.yml'') = Some c"
    if "phase4_try orch result = Inr toc" "apply_changes (config orch)" "t_success toc"
       "t_changes_made toc" "t_content toc = Some c" "c \<noteq> []"
    using that by (simp add: phase4_returned [OF that(1)] apply_toc_written)
  have b: "toc_results (fst (execute_phase4 orch result w)) = Some (toc\<lparr>t_applied := Some False\<rparr>)
       \<and> snd (execute_phase4 orch result w) = reset_phase 4 w"
    if "phase4_try orch result = Inr toc"
       "\<not> (apply_changes (config orch) \<and> t_success toc \<and> t_changes_made toc)"
    using that by (auto simp: phase4_returned [OF that(1)])
  have c: "snd (execute_phase4 orch result w) = reset_phase 4 w"
    if "phase4_try orch result = Inr toc" "\<not> truthy (t_content toc)"
    using that by (simp add: phase4_returned [OF that(1)] apply_toc_skipped)
  have d: "execute_phase4 orch result w
         = (result\<lparr>toc_results := None, toc_ready := False\<rparr>, reset_phase 4 w)"
    if "phase4_try orch result = Inl e"
    by (rule phase4_raised [OF that])
  from a b c d show ?thesis by blast
qed

text \<open>
  The sample run in apply mode writes the manifest; in preview mode it does not.
\<close>

theorem toc_apply_semantics_witness:
  "phase4_try sample_orch sample_result3 = Inr sample_toc
   \<and> apply_changes (config sample_orch) \<and> t_success sample_toc \<and> t_changes_made sample_toc
   \<and> t_content sample_toc = Some ''items: old.md, new.md''
   \<and> toc_results (fst (execute_phase4 sample_orch sample_result3 sample_world))
        = Some (sample_toc\<lparr>t_applied := Some True\<rparr>)
   \<and> writes (snd (execute_phase4 sample_orch sample_result3 sample_world))
        = [(''/work/repo/docs/TOC.yml'', ''items: old.md, new.md'')]
   \<and> read_file (snd (execute_phase4 sample_orch sample_result3 sample_world))
        ''/work/repo/docs/TOC.yml'' = Some ''items: old.md, new.md''
   \<and> phase4_try (preview sample_orch) sample_result3 = Inr sample_toc
   \<and> \<not> apply_changes (config (preview sample_orch))
   \<and> toc_results (fst (execute_phase4 (preview sample_orch) sample_result3 sample_world))
        = Some (sample_toc\<lparr>t_applied := Some False\<rparr>)
   \<and> snd (execute_phase4 (preview sample_orch) sample_result3 sample_world)
        = reset_phase 4 sample_world"
proof -
  have t: "t_success sample_toc" "t_changes_made sample_toc"
      "t_content sample_toc = Some ''items: old.md, new.md''"
    by (simp_all add: sample_toc_def)
  have p: "phase4_try (preview sample_orch) sample_result3 = Inr sample_toc"
      "\<not> apply_changes (config (preview sample_orch))"
    by (simp_all add: phase4_try_def run_toc_phase_def preview_def sample_orch_def
          sample_collab_def sample_result3_def)
  have w: "writes sample_world = []" by (simp add: sample_world_def)
  have pd: "path_div ''/work/repo/docs'' ''TOC.yml'' = ''/work/repo/docs/TOC.yml''"
    by (simp add: path_simps)
  from toc_apply_semantics [of sample_orch sample_result3 sample_toc
      "''items: old.md, new.md''" sample_world] sample_phase4_try sample_flags t
  have a: "toc_results (fst (execute_phase4 sample_orch sample_result3 sample_world))
        = Some (sample_toc\<lparr>t_applied := Some True\<rparr>)
   \<and> writes (snd (execute_phase4 sample_orch sample_result3 sample_world))
        = [(''/work/repo/docs/TOC.yml'', ''items: old.md, new.md'')]
   \<and> read_file (snd (execute_phase4 sample_orch sample_result3 sample_world))
        ''/work/repo/docs/TOC.yml'' = Some ''items: old.md, new.md''"
    by (simp add: sample_paths w pd)
  from toc_apply_semantics [of "preview sample_orch" sample_result3 sample_toc _ sample_world] p
  have b: "toc_results (fst (execute_phase4 (preview sample_orch) sample_result3 sample_world))
        = Some (sample_toc\<lparr>t_applied := Some False\<rparr>)
   \<and> snd (execute_phase4 (preview sample_orch) sample_result3 sample_world)
        = reset_phase 4 sample_world"
    by blast
  from a b p t sample_phase4_try sample_flags(1) show ?thesis by blast
qed

end
